theory Spec2Isabelle
  imports Main "HOL-Library.Word" "HOL-Library.Signed_Division"
begin

section \<open>Parquet modular encryption: key toolkit and file-level crypto binding\<close>

text \<open>
  A shallow embedding of the C++ sources of the Parquet encryption layer.
  \<^item> \<open>std::string\<close> is \<^typ>\<open>string\<close>: a list of bytes.
  \<^item> A thrown exception is the \<open>Inl\<close> branch of a sum; the C++ exception class is the
    constructor of \<open>exn\<close> and its \<open>what()\<close> text is the argument.
  \<^item> Mutable members are fields of a record that the operation returns updated.
  \<^item> Functions of other libraries (AES, Thrift, base64, string trimming, the KMS-backed
    key wrapper) are parameters of the functions that call them.
\<close>

subsection \<open>Exceptions\<close>

datatype exn =
    ParquetException string
  | HiddenColumnException string
  | KeyAccessDeniedException string
  | std_invalid_argument string
  | std_out_of_range
  | std_length_error
  | memory_fault \<comment> \<open>a null dereference or an out-of-bounds access: not a C++ exception, the
      behaviour is undefined and the process is taken to stop\<close>
  | rapidjson_assert \<comment> \<open>\<open>RAPIDJSON_ASSERT\<close> fails (a missing member, a value of another
      type): the process stops\<close>

subsection \<open>Standard containers\<close>

text \<open>\<open>std::map::insert\<close> and \<open>std::unordered_map::insert\<close> keep an element that is
  already stored under the key: the new value is dropped.\<close>

definition map_insert :: "('k \<rightharpoonup> 'v) \<Rightarrow> 'k \<Rightarrow> 'v \<Rightarrow> ('k \<rightharpoonup> 'v)" where
  "map_insert m k v = (case m k of None \<Rightarrow> m(k \<mapsto> v) | Some old \<Rightarrow> m)"

text \<open>\<open>operator[]\<close> returns the stored element, and stores a default-constructed one
  first when the key is missing.\<close>

definition map_subscript :: "('k \<rightharpoonup> 'v) \<Rightarrow> 'k \<Rightarrow> 'v \<Rightarrow> 'v \<times> ('k \<rightharpoonup> 'v)" where
  "map_subscript m k dflt = (case m k of None \<Rightarrow> (dflt, m(k \<mapsto> dflt)) | Some v \<Rightarrow> (v, m))"

subsection \<open>String helpers\<close>

text \<open>\<open>SplitString\<close>: the loop \<open>end = v.find(delim, start); parts.push_back(v.substr(start,
  end - start)); if (end == npos) break; start = end + 1\<close>. The argument is the rest of
  \<open>v\<close> from \<open>start\<close> on.\<close>

function SplitString :: "string \<Rightarrow> char \<Rightarrow> string list" where
  "SplitString v delim =
     (case dropWhile (\<lambda>c. c \<noteq> delim) v of
        [] \<Rightarrow> [v]
      | d # rest \<Rightarrow> takeWhile (\<lambda>c. c \<noteq> delim) v # SplitString rest delim)"
  by pat_completeness auto
termination
proof (relation "measure (\<lambda>(v, delim). length v)")
  show "wf (measure (\<lambda>(v, delim). length v))" by simp
next
  fix v :: string and delim :: char and d rest
  assume "dropWhile (\<lambda>c. c \<noteq> delim) v = d # rest"
  then have "length (d # rest) \<le> length v"
    using length_dropWhile_le [of "\<lambda>c. c \<noteq> delim" v] by simp
  then show "((rest, delim), (v, delim)) \<in> measure (\<lambda>(v, delim). length v)" by simp
qed

declare SplitString.simps [simp del]

text \<open>Segments put together with a separator between them.\<close>

fun join_with :: "char \<Rightarrow> string list \<Rightarrow> string" where
  "join_with d [] = []"
| "join_with d [x] = x"
| "join_with d (x # y # ys) = x @ d # join_with d (y # ys)"

text \<open>Modelled from the spec: \<open>arrow::internal::TrimString\<close> is defined in
  arrow/util/string.h, which is not among the sources; the spec has "Trim whitespace around
  every token". Blank and tab are the whitespace here. The functions below take the
  trimming function as their parameter \<open>trim\<close>, so what is proved of them holds for any
  other choice; \<open>TrimString\<close> is the instance used at concrete inputs.\<close>

definition is_blank :: "char \<Rightarrow> bool" where
  "is_blank c = (c = CHR '' '' \<or> c = CHR 0x09)"

definition TrimString :: "string \<Rightarrow> string" where
  "TrimString v = rev (dropWhile is_blank (rev (dropWhile is_blank v)))"

text \<open>\<open>operator<<\<close> of an output stream for an \<open>int\<close>: decimal digits, with a minus sign
  for a negative number.\<close>

fun string_of_nat :: "nat \<Rightarrow> string" where
  "string_of_nat n =
     (if n < 10 then [char_of (48 + n)]
      else string_of_nat (n div 10) @ [char_of (48 + n mod 10)])"

declare string_of_nat.simps [simp del]

definition string_of_int :: "int \<Rightarrow> string" where
  "string_of_int i = (if i < 0 then CHR ''-'' # string_of_nat (nat (- i)) else string_of_nat (nat i))"

subsection \<open>Two-level cache with expiration (two_level_cache_with_expiration.h)\<close>

text \<open>Modelled from the spec: \<open>internal::ExpiringCacheEntry\<close> and \<open>internal::TimePoint\<close>
  are declared in key_toolkit_internal.h, which is not among the sources. The spec has
  each external entry as \<open>{map<string,V>, expiration_timestamp}\<close>, created with a time to
  live in milliseconds and expired once that time has elapsed. Time points are
  milliseconds as natural numbers; the clock reading is the argument \<open>now\<close>.\<close>

record 'a ExpiringCacheEntry =
  cached_item :: 'a
  expiration_timestamp :: nat

definition new_ExpiringCacheEntry :: "nat \<Rightarrow> 'a \<Rightarrow> nat \<Rightarrow> 'a ExpiringCacheEntry" where
  "new_ExpiringCacheEntry now item expiration_interval_millis =
     \<lparr>cached_item = item, expiration_timestamp = now + expiration_interval_millis\<rparr>"

definition IsExpired :: "nat \<Rightarrow> 'a ExpiringCacheEntry \<Rightarrow> bool" where
  "IsExpired now e = (expiration_timestamp e < now)"

record 'v TwoLevelCacheWithExpiration =
  cache :: "string \<rightharpoonup> (string \<rightharpoonup> 'v) ExpiringCacheEntry"
  last_cache_cleanup_timestamp :: nat

text \<open>\<open>GetOrCreateInternalCache\<close>: \<open>find\<close>, then \<open>insert\<close> of a fresh entry when the token
  is missing or its entry has expired, then \<open>cache[access_token].cached_item()\<close>. The
  result is the internal map that the returned reference points to, with the cache.\<close>

definition GetOrCreateInternalCache ::
  "nat \<Rightarrow> 'v TwoLevelCacheWithExpiration \<Rightarrow> string \<Rightarrow> nat \<Rightarrow>
   (string \<rightharpoonup> 'v) \<times> 'v TwoLevelCacheWithExpiration" where
  "GetOrCreateInternalCache now c access_token cache_entry_lifetime_ms =
     (let external_cache_entry = cache c access_token;
          cache1 =
            (if (case external_cache_entry of None \<Rightarrow> True | Some e \<Rightarrow> IsExpired now e)
             then map_insert (cache c) access_token
                    (new_ExpiringCacheEntry now Map.empty cache_entry_lifetime_ms)
             else cache c);
          (entry, cache2) =
            map_subscript cache1 access_token (new_ExpiringCacheEntry now Map.empty 0)
      in (cached_item entry, c\<lparr>cache := cache2\<rparr>))"

definition RemoveCacheEntriesForToken ::
  "'v TwoLevelCacheWithExpiration \<Rightarrow> string \<Rightarrow> 'v TwoLevelCacheWithExpiration" where
  "RemoveCacheEntriesForToken c access_token = c\<lparr>cache := (cache c)(access_token := None)\<rparr>"

definition RemoveExpiredEntriesFromCache ::
  "nat \<Rightarrow> 'v TwoLevelCacheWithExpiration \<Rightarrow> 'v TwoLevelCacheWithExpiration" where
  "RemoveExpiredEntriesFromCache now c =
     c\<lparr>cache := (\<lambda>k. case cache c k of
                          None \<Rightarrow> None
                        | Some e \<Rightarrow> if IsExpired now e then None else Some e)\<rparr>"

subsection \<open>In-memory KMS (in_memory_kms.cc)\<close>

text \<open>The two static maps of the class (a member \<open>m_\<close> of the source is the field
  \<open>m\<close>). \<open>TrimString\<close> (arrow::internal), \<open>base64_decode\<close> (arrow::util) and \<open>KeyToolkit::EncryptKeyLocally\<close> /
  \<open>DecryptKeyLocally\<close> are defined outside the sources and are the parameters \<open>trim\<close>,
  \<open>b64\<close>, \<open>enc\<close> and \<open>dec\<close>.\<close>

record InMemoryKms =
  master_key_map :: "string \<rightharpoonup> string"
  new_master_key_map :: "string \<rightharpoonup> string"

text \<open>\<open>ParseKeyList\<close>: the loop over \<open>master_keys\<close>, with \<open>key_map\<close> as accumulator.
  \<open>SplitString\<close> never returns an empty vector, so \<open>parts[0]\<close> exists.\<close>

fun ParseKeyList_loop ::
  "(string \<Rightarrow> string) \<Rightarrow> (string \<Rightarrow> string) \<Rightarrow> string list \<Rightarrow> (string \<rightharpoonup> string) \<Rightarrow>
   exn + (string \<rightharpoonup> string)" where
  "ParseKeyList_loop trim b64 [] key_map = Inr key_map"
| "ParseKeyList_loop trim b64 (mk # master_keys) key_map =
     (let parts = SplitString mk (CHR '':'');
          key_name = trim (case parts of [] \<Rightarrow> [] | p # ps \<Rightarrow> p)
      in if length parts \<noteq> 2
         then Inl (std_invalid_argument
                     (''Key '' @ [CHR 0x27] @ key_name @ [CHR 0x27] @ '' is not formatted correctly''))
         else let key = trim (parts ! 1);
                  key_bytes = b64 key
              in ParseKeyList_loop trim b64 master_keys (map_insert key_map key_name key_bytes))"

definition ParseKeyList ::
  "(string \<Rightarrow> string) \<Rightarrow> (string \<Rightarrow> string) \<Rightarrow> string list \<Rightarrow> exn + (string \<rightharpoonup> string)" where
  "ParseKeyList trim b64 master_keys = ParseKeyList_loop trim b64 master_keys Map.empty"

text \<open>An exception of \<open>ParseKeyList\<close> leaves the assignment undone.\<close>

definition StartKeyRotation ::
  "(string \<Rightarrow> string) \<Rightarrow> (string \<Rightarrow> string) \<Rightarrow> InMemoryKms \<Rightarrow> string list \<Rightarrow> exn + InMemoryKms" where
  "StartKeyRotation trim b64 kms new_master_keys =
     (case ParseKeyList trim b64 new_master_keys of
        Inl e \<Rightarrow> Inl e
      | Inr m \<Rightarrow> Inr (kms\<lparr>new_master_key_map := m\<rparr>))"

definition FinishKeyRotation :: "InMemoryKms \<Rightarrow> InMemoryKms" where
  "FinishKeyRotation kms = kms\<lparr>master_key_map := new_master_key_map kms\<rparr>"

definition InitializeMasterKey ::
  "(string \<Rightarrow> string) \<Rightarrow> (string \<Rightarrow> string) \<Rightarrow> InMemoryKms \<Rightarrow> string list \<Rightarrow> exn + InMemoryKms" where
  "InitializeMasterKey trim b64 kms master_keys =
     (case ParseKeyList trim b64 master_keys of
        Inl e \<Rightarrow> Inl e
      | Inr m \<Rightarrow> Inr (kms\<lparr>master_key_map := m, new_master_key_map := m\<rparr>))"

definition WrapKeyInServer ::
  "(string \<Rightarrow> string \<Rightarrow> string \<Rightarrow> exn + string) \<Rightarrow> InMemoryKms \<Rightarrow> string \<Rightarrow> string \<Rightarrow>
   exn + string" where
  "WrapKeyInServer enc kms key_bytes master_key_identifier =
     (case new_master_key_map kms master_key_identifier of
        None \<Rightarrow> Inl (ParquetException (''Key not found: '' @ master_key_identifier))
      | Some master_key \<Rightarrow> enc key_bytes master_key master_key_identifier)"

definition UnwrapKeyInServer ::
  "(string \<Rightarrow> string \<Rightarrow> string \<Rightarrow> exn + string) \<Rightarrow> InMemoryKms \<Rightarrow> string \<Rightarrow> string \<Rightarrow>
   exn + string" where
  "UnwrapKeyInServer dec kms wrapped_key master_key_identifier =
     (case new_master_key_map kms master_key_identifier of
        None \<Rightarrow> Inl (ParquetException (''Key not found: '' @ master_key_identifier))
      | Some master_key \<Rightarrow> dec wrapped_key master_key master_key_identifier)"

text \<open>\<open>GetMasterKeyFromServer\<close>: \<open>std::map::at\<close> throws \<open>std::out_of_range\<close> for a
  missing key.\<close>

definition GetMasterKeyFromServer :: "InMemoryKms \<Rightarrow> string \<Rightarrow> exn + string" where
  "GetMasterKeyFromServer kms master_key_identifier =
     (case new_master_key_map kms master_key_identifier of
        None \<Rightarrow> Inl std_out_of_range
      | Some master_key_str \<Rightarrow> Inr master_key_str)"

subsection \<open>Crypto factory (encryption/properties_driven_crypto_factory.cc)\<close>

datatype ParquetCipher = AES_GCM_V1 | AES_GCM_CTR_V1 | OtherCipher int

record EncryptionConfiguration =
  footer_key :: string
  column_keys :: string
  encryption_algorithm :: ParquetCipher
  plaintext_footer :: bool
  double_wrapping :: bool
  cache_lifetime_seconds :: nat
  internal_key_material :: bool
  uniform_encryption :: bool
  data_key_length_bits :: "32 word"

text \<open>What \<open>ColumnEncryptionProperties::Builder(column_name).key(k)->key_metadata(m)->build()\<close>
  holds, and what the \<open>FileEncryptionProperties::Builder\<close> has been given when \<open>build()\<close>
  is called. \<open>ColumnPathToEncryptionPropertiesMap\<close> is a \<open>std::map\<close> from the column name;
  it is the list of its entries in the order of insertion, and \<open>find\<close> is \<open>map_of\<close>.\<close>

record ColumnEncryptionProperties =
  column_path :: string
  key :: string
  key_metadata :: string

type_synonym ColumnPathToEncryptionPropertiesMap = "(string \<times> ColumnEncryptionProperties) list"

record FileEncryptionProperties =
  props_footer_key :: string
  props_footer_key_metadata :: string
  props_algorithm :: ParquetCipher
  props_encrypted_columns :: "ColumnPathToEncryptionPropertiesMap option"
  props_plaintext_footer :: bool

text \<open>The arguments of the \<open>FileKeyWrapper\<close> constructor. The wrapper itself
  (file_key_wrapper.cc) and \<open>RandBytes\<close> are outside the sources: they are the parameters
  \<open>wrap\<close>, for \<open>FileKeyWrapper::GetEncryptionKeyMetadata\<close>, which may throw, and \<open>rand\<close>.
  Both work on a state \<open>'s\<close> (the random generator, the KMS and the caches of the key
  toolkit).\<close>

record 'c FileKeyWrapper =
  kms_connection_config :: 'c
  cache_entry_lifetime_seconds :: nat
  wrapper_double_wrapping :: bool

type_synonym ('c, 's) wrap_fn =
  "'c FileKeyWrapper \<Rightarrow> 's \<Rightarrow> string \<Rightarrow> string \<Rightarrow> bool \<Rightarrow> exn + (string \<times> 's)"

type_synonym 's rand_fn = "'s \<Rightarrow> nat \<Rightarrow> string \<times> 's"

text \<open>The constructor of \<open>FileKeyWrapper\<close> is outside the sources as well: it is the
  parameter \<open>new_key_wrapper\<close>, which works on the same state and may throw.\<close>

type_synonym ('c, 's) ctor_fn = "'c FileKeyWrapper \<Rightarrow> 's \<Rightarrow> exn + 's"

text \<open>Modelled from the spec: \<open>internal::ValidateKeyLength\<close> is declared in
  key_toolkit_internal.h and defined outside the sources; the spec has
  \<open>data_key_length_bits\<close> in \<open>{128,192,256}\<close>.\<close>

definition ValidateKeyLength :: "32 word \<Rightarrow> bool" where
  "ValidateKeyLength key_length_bits =
     (key_length_bits = 128 \<or> key_length_bits = 192 \<or> key_length_bits = 256)"

text \<open>The inner loop of \<open>GetColumnEncryptionProperties\<close>, over \<open>column_names\<close>.
  \<open>std::string column_key(dek_length, 0)\<close> throws \<open>std::length_error\<close> for a negative
  \<open>dek_length\<close>.\<close>

fun column_names_loop ::
  "(string \<Rightarrow> string) \<Rightarrow> 's rand_fn \<Rightarrow> ('c, 's) wrap_fn \<Rightarrow> 'c FileKeyWrapper \<Rightarrow> int \<Rightarrow>
   string \<Rightarrow> string list \<Rightarrow> ColumnPathToEncryptionPropertiesMap \<Rightarrow> 's \<Rightarrow>
   exn + (ColumnPathToEncryptionPropertiesMap \<times> 's)" where
  "column_names_loop trim rand wrap key_wrapper dek_length column_key_id [] encrypted_columns s =
     Inr (encrypted_columns, s)"
| "column_names_loop trim rand wrap key_wrapper dek_length column_key_id (cn # column_names)
     encrypted_columns s =
     (let column_name = trim cn in
      if column_name = []
      then Inl (ParquetException
                  (''Empty column name in column keys property for key: '' @ column_key_id))
      else if map_of encrypted_columns column_name \<noteq> None
      then Inl (ParquetException (''Multiple keys defined for the same column: '' @ column_name))
      else if dek_length < 0 then Inl std_length_error
      else
        (case rand s (nat dek_length) of (column_key, s1) \<Rightarrow>
           (case wrap key_wrapper s1 column_key column_key_id False of
              Inl e \<Rightarrow> Inl e
            | Inr (column_key_key_metadata, s2) \<Rightarrow>
                (let cmd = \<lparr>column_path = column_name, key = column_key,
                             key_metadata = column_key_key_metadata\<rparr>
                 in column_names_loop trim rand wrap key_wrapper dek_length column_key_id
                      column_names (encrypted_columns @ [(column_name, cmd)]) s2))))"

text \<open>The outer loop, over \<open>key_to_columns\<close>.\<close>

fun key_to_columns_loop ::
  "(string \<Rightarrow> string) \<Rightarrow> 's rand_fn \<Rightarrow> ('c, 's) wrap_fn \<Rightarrow> 'c FileKeyWrapper \<Rightarrow> int \<Rightarrow>
   string list \<Rightarrow> ColumnPathToEncryptionPropertiesMap \<Rightarrow> 's \<Rightarrow>
   exn + (ColumnPathToEncryptionPropertiesMap \<times> 's)" where
  "key_to_columns_loop trim rand wrap key_wrapper dek_length [] encrypted_columns s =
     Inr (encrypted_columns, s)"
| "key_to_columns_loop trim rand wrap key_wrapper dek_length (ktc # key_to_columns)
     encrypted_columns s =
     (let cur_key_to_columns = trim ktc in
      if cur_key_to_columns = []
      then key_to_columns_loop trim rand wrap key_wrapper dek_length key_to_columns
             encrypted_columns s
      else
        (let parts = SplitString cur_key_to_columns (CHR '':'') in
         if length parts \<noteq> 2
         then Inl (ParquetException
                     (''Incorrect key to columns mapping in column keys property: ['' @
                      cur_key_to_columns @ '']''))
         else
           (let column_key_id = trim (parts ! 0) in
            if column_key_id = []
            then Inl (ParquetException ''Empty key name in column keys property.'')
            else
              (let column_names_str = trim (parts ! 1);
                   column_names = SplitString column_names_str (CHR '','')
               in if 0 = length column_names
                  then Inl (ParquetException
                              (''No columns to encrypt defined for key: '' @ column_key_id))
                  else
                    (case column_names_loop trim rand wrap key_wrapper dek_length
                            column_key_id column_names encrypted_columns s of
                       Inl e \<Rightarrow> Inl e
                     | Inr (encrypted_columns1, s1) \<Rightarrow>
                         key_to_columns_loop trim rand wrap key_wrapper dek_length
                           key_to_columns encrypted_columns1 s1)))))"

definition GetColumnEncryptionProperties ::
  "(string \<Rightarrow> string) \<Rightarrow> 's rand_fn \<Rightarrow> ('c, 's) wrap_fn \<Rightarrow> int \<Rightarrow> string \<Rightarrow>
   'c FileKeyWrapper \<Rightarrow> 's \<Rightarrow> exn + (ColumnPathToEncryptionPropertiesMap \<times> 's)" where
  "GetColumnEncryptionProperties trim rand wrap dek_length column_keys_str key_wrapper s =
     (let key_to_columns = SplitString column_keys_str (CHR '';'') in
      case key_to_columns_loop trim rand wrap key_wrapper dek_length key_to_columns [] s of
        Inl e \<Rightarrow> Inl e
      | Inr (encrypted_columns, s1) \<Rightarrow>
          if encrypted_columns = []
          then Inl (ParquetException ''No column keys configured in column keys property.'')
          else Inr (encrypted_columns, s1))"

text \<open>\<open>GetFileEncryptionProperties\<close>. A null \<open>encryption_config\<close> is \<open>None\<close>, and so is the
  null result. The \<open>FileKeyWrapper\<close> is constructed after the tests on the configuration
  and before the test on the key length.\<close>

definition GetFileEncryptionProperties ::
  "(string \<Rightarrow> string) \<Rightarrow> 's rand_fn \<Rightarrow> ('c, 's) ctor_fn \<Rightarrow> ('c, 's) wrap_fn \<Rightarrow> 'c \<Rightarrow>
   EncryptionConfiguration option \<Rightarrow> 's \<Rightarrow> exn + (FileEncryptionProperties option \<times> 's)" where
  "GetFileEncryptionProperties trim rand new_key_wrapper wrap kms_conn encryption_config s =
     (case encryption_config of
        None \<Rightarrow> Inr (None, s)
      | Some cfg \<Rightarrow>
          if \<not> uniform_encryption cfg \<and> column_keys cfg = []
          then Inl (ParquetException ''Either column_keys or uniform_encryption must be set'')
          else if uniform_encryption cfg \<and> column_keys cfg \<noteq> []
          then Inl (ParquetException ''Cannot set both column_keys and uniform_encryption'')
          else
            (let footer_key_id = footer_key cfg;
                 column_key_str = column_keys cfg
             in if \<not> internal_key_material cfg
                then Inl (ParquetException ''External key material store is not supported yet.'')
                else
                  (let key_wrapper = \<lparr>kms_connection_config = kms_conn,
                                       cache_entry_lifetime_seconds = cache_lifetime_seconds cfg,
                                       wrapper_double_wrapping = double_wrapping cfg\<rparr>
                   in case new_key_wrapper key_wrapper s of
                        Inl e \<Rightarrow> Inl e
                      | Inr s0 \<Rightarrow>
                          (let dek_length_bits = data_key_length_bits cfg
                           in if \<not> ValidateKeyLength dek_length_bits
                              then Inl (ParquetException
                                          (''Wrong data key length : '' @
                                           string_of_int (sint dek_length_bits)))
                              else
                                (let dek_length = sint dek_length_bits sdiv 8 in
                                 if dek_length < 0 then Inl std_length_error
                                 else
                                   (case rand s0 (nat dek_length) of (footer_key_bytes, s1) \<Rightarrow>
                                      (case wrap key_wrapper s1 footer_key_bytes footer_key_id
                                              True of
                                         Inl e \<Rightarrow> Inl e
                                       | Inr (footer_key_metadata, s2) \<Rightarrow>
                                           (let properties_builder =
                                                  \<lparr>props_footer_key = footer_key_bytes,
                                                   props_footer_key_metadata = footer_key_metadata,
                                                   props_algorithm = encryption_algorithm cfg,
                                                   props_encrypted_columns = None,
                                                   props_plaintext_footer = False\<rparr>
                                            in if \<not> uniform_encryption cfg
                                               then
                                                 (case GetColumnEncryptionProperties trim rand
                                                         wrap dek_length column_key_str
                                                         key_wrapper s2 of
                                                    Inl e \<Rightarrow> Inl e
                                                  | Inr (encrypted_columns, s3) \<Rightarrow>
                                                      Inr (Some (properties_builder
                                                             \<lparr>props_encrypted_columns :=
                                                                Some encrypted_columns,
                                                              props_plaintext_footer :=
                                                                plaintext_footer cfg\<rparr>),
                                                           s3))
                                               else Inr (Some properties_builder, s2)))))))))"

subsection \<open>Internal file encryptor (internal_file_encryptor.cc)\<close>

text \<open>The arguments an \<open>AesEncryptor\<close> is constructed with, and the six cached
  encryptors of the file encryptor (a null pointer is \<open>None\<close>).\<close>

record AesEncryptor =
  aes_algorithm :: ParquetCipher
  aes_key_len :: "32 word"
  aes_metadata :: bool

record InternalFileEncryptor =
  meta_encryptor_128 :: "AesEncryptor option"
  meta_encryptor_196 :: "AesEncryptor option"
  meta_encryptor_256 :: "AesEncryptor option"
  data_encryptor_128 :: "AesEncryptor option"
  data_encryptor_196 :: "AesEncryptor option"
  data_encryptor_256 :: "AesEncryptor option"

text \<open>\<open>key_size\<close> is a \<open>size_t\<close> (64 bits) and \<open>key_len = static_cast<int>(key_size)\<close>
  keeps its low 32 bits.\<close>

definition GetMetaAesEncryptor ::
  "InternalFileEncryptor \<Rightarrow> ParquetCipher \<Rightarrow> 64 word \<Rightarrow>
   exn + (AesEncryptor \<times> InternalFileEncryptor)" where
  "GetMetaAesEncryptor fe algorithm key_size =
     (let key_len = (ucast key_size :: 32 word);
          fresh = \<lparr>aes_algorithm = algorithm, aes_key_len = key_len, aes_metadata = True\<rparr>
      in if key_len = 16
         then (case meta_encryptor_128 fe of
                 None \<Rightarrow> Inr (fresh, fe\<lparr>meta_encryptor_128 := Some fresh\<rparr>)
               | Some e \<Rightarrow> Inr (e, fe))
         else if key_len = 24
         then (case meta_encryptor_196 fe of
                 None \<Rightarrow> Inr (fresh, fe\<lparr>meta_encryptor_196 := Some fresh\<rparr>)
               | Some e \<Rightarrow> Inr (e, fe))
         else if key_len = 32
         then (case meta_encryptor_256 fe of
                 None \<Rightarrow> Inr (fresh, fe\<lparr>meta_encryptor_256 := Some fresh\<rparr>)
               | Some e \<Rightarrow> Inr (e, fe))
         else Inl (ParquetException ''encryption key must be 16, 24 or 32 bytes in length''))"

definition GetDataAesEncryptor ::
  "InternalFileEncryptor \<Rightarrow> ParquetCipher \<Rightarrow> 64 word \<Rightarrow>
   exn + (AesEncryptor \<times> InternalFileEncryptor)" where
  "GetDataAesEncryptor fe algorithm key_size =
     (let key_len = (ucast key_size :: 32 word);
          fresh = \<lparr>aes_algorithm = algorithm, aes_key_len = key_len, aes_metadata = False\<rparr>
      in if key_len = 16
         then (case data_encryptor_128 fe of
                 None \<Rightarrow> Inr (fresh, fe\<lparr>data_encryptor_128 := Some fresh\<rparr>)
               | Some e \<Rightarrow> Inr (e, fe))
         else if key_len = 24
         then (case data_encryptor_196 fe of
                 None \<Rightarrow> Inr (fresh, fe\<lparr>data_encryptor_196 := Some fresh\<rparr>)
               | Some e \<Rightarrow> Inr (e, fe))
         else if key_len = 32
         then (case data_encryptor_256 fe of
                 None \<Rightarrow> Inr (fresh, fe\<lparr>data_encryptor_256 := Some fresh\<rparr>)
               | Some e \<Rightarrow> Inr (e, fe))
         else Inl (ParquetException ''encryption key must be 16, 24 or 32 bytes in length''))"

subsection \<open>The \<open>column_keys\<close> string, as the spec describes it\<close>

text \<open>The segments between \<open>;\<close>, trimmed, without the empty ones; the key name and the
  column names of a segment \<open>key:col,col\<close>; and the three defects of the string that the
  spec names: a column listed more than once, an empty key name, an empty column name.\<close>

definition nonempty_segments :: "(string \<Rightarrow> string) \<Rightarrow> string \<Rightarrow> string list" where
  "nonempty_segments trim column_keys_str =
     filter (\<lambda>seg. seg \<noteq> []) (map trim (SplitString column_keys_str (CHR '';'')))"

definition segment_key :: "(string \<Rightarrow> string) \<Rightarrow> string \<Rightarrow> string" where
  "segment_key trim seg = (case SplitString seg (CHR '':'') of [] \<Rightarrow> [] | p # ps \<Rightarrow> trim p)"

definition segment_columns :: "(string \<Rightarrow> string) \<Rightarrow> string \<Rightarrow> string list" where
  "segment_columns trim seg =
     (case SplitString seg (CHR '':'') of
        [k, cs] \<Rightarrow> map trim (SplitString (trim cs) (CHR '',''))
      | _ \<Rightarrow> [])"

definition column_keys_rejected :: "(string \<Rightarrow> string) \<Rightarrow> string \<Rightarrow> bool" where
  "column_keys_rejected trim ck =
     (\<not> distinct (concat (map (segment_columns trim) (nonempty_segments trim ck))) \<or>
      list_ex (\<lambda>seg. segment_key trim seg = []) (nonempty_segments trim ck) \<or>
      list_ex (\<lambda>seg. [] \<in> set (segment_columns trim seg)) (nonempty_segments trim ck))"

text \<open>The strings whose non-empty segments are all mappings \<open>key:col,col\<close> with a key
  name, with column names that are not empty and with no column listed twice, and that
  have one such segment at least.\<close>

definition column_keys_accepted :: "(string \<Rightarrow> string) \<Rightarrow> string \<Rightarrow> bool" where
  "column_keys_accepted trim ck =
     (nonempty_segments trim ck \<noteq> [] \<and>
      list_all (\<lambda>seg. length (SplitString seg (CHR '':'')) = 2 \<and> segment_key trim seg \<noteq> [] \<and>
                      [] \<notin> set (segment_columns trim seg))
        (nonempty_segments trim ck) \<and>
      distinct (concat (map (segment_columns trim) (nonempty_segments trim ck))))"

text \<open>A key wrapper that returns key metadata for every key.\<close>

definition wrap_never_throws :: "('c, 's) wrap_fn \<Rightarrow> bool" where
  "wrap_never_throws wrap = (\<forall>kw s k i f. \<exists>r. wrap kw s k i f = Inr r)"

subsection \<open>Sample collaborators for concrete runs\<close>

text \<open>A generator that returns the byte \<open>K\<close> repeated, a key wrapper whose constructor
  returns and which returns the master key id and the key, a wrapper configuration and an
  encryption configuration.\<close>

definition sample_rand :: "unit rand_fn" where
  "sample_rand s n = (replicate n (CHR ''K''), s)"

definition sample_new_key_wrapper :: "(unit, unit) ctor_fn" where
  "sample_new_key_wrapper kw s = Inr s"

definition sample_wrap :: "(unit, unit) wrap_fn" where
  "sample_wrap kw s key_bytes master_key_id is_footer_key =
     Inr (master_key_id @ ''/'' @ key_bytes, s)"

definition sample_key_wrapper :: "unit FileKeyWrapper" where
  "sample_key_wrapper =
     \<lparr>kms_connection_config = (), cache_entry_lifetime_seconds = 600,
      wrapper_double_wrapping = True\<rparr>"

definition sample_config :: "string \<Rightarrow> bool \<Rightarrow> 32 word \<Rightarrow> EncryptionConfiguration" where
  "sample_config ck uniform bits =
     \<lparr>footer_key = ''kf'', column_keys = ck, encryption_algorithm = AES_GCM_V1,
      plaintext_footer = False, double_wrapping = True, cache_lifetime_seconds = 600,
      internal_key_material = True, uniform_encryption = uniform,
      data_key_length_bits = bits\<rparr>"

definition no_encryptors :: InternalFileEncryptor where
  "no_encryptors =
     \<lparr>meta_encryptor_128 = None, meta_encryptor_196 = None, meta_encryptor_256 = None,
      data_encryptor_128 = None, data_encryptor_196 = None, data_encryptor_256 = None\<rparr>"

subsection \<open>Thrift structures and decryption properties (metadata.cc, file_reader.cc)\<close>

text \<open>The generated Thrift structures \<open>format::ColumnMetaData\<close>,
  \<open>format::ColumnCryptoMetaData\<close>, \<open>format::ColumnChunk\<close>, \<open>format::RowGroup\<close> and
  \<open>format::FileMetaData\<close>, with the fields the code reads or writes. The flag
  \<open>__isset.f\<close> of an optional field \<open>f\<close> is \<open>isset_f\<close>: the Thrift writer emits an optional
  field exactly when its flag is set. \<open>Statistics\<close> and the encoding statistics are kept
  as opaque strings.\<close>

record ColumnMetaData =
  encodings :: "int list"
  path_in_schema :: "string list"
  codec :: int
  num_values :: int
  total_uncompressed_size :: int
  total_compressed_size :: int
  data_page_offset :: int
  dictionary_page_offset :: int
  statistics :: string
  encoding_stats :: string
  isset_dictionary_page_offset :: bool
  isset_statistics :: bool
  isset_encoding_stats :: bool

record ColumnCryptoMetaData =
  isset_ENCRYPTION_WITH_FOOTER_KEY :: bool
  isset_ENCRYPTION_WITH_COLUMN_KEY :: bool
  eck_path_in_schema :: "string list"
  eck_key_metadata :: string

record ColumnChunk =
  file_path :: string
  file_offset :: int
  meta_data :: ColumnMetaData
  crypto_metadata :: ColumnCryptoMetaData
  encrypted_column_metadata :: string
  isset_meta_data :: bool
  isset_crypto_metadata :: bool
  isset_encrypted_column_metadata :: bool

record RowGroup =
  columns :: "ColumnChunk list"
  num_rows :: int

record AadMetadata =
  aad_prefix :: string
  aad_file_unique :: string
  supply_aad_prefix :: bool

record EncryptionAlgorithm =
  algorithm :: ParquetCipher
  aad :: AadMetadata

text \<open>\<open>FileMetaData\<close> with the member \<open>metadata_len_\<close> of its implementation class, and
  \<open>FileCryptoMetaData\<close>.\<close>

record FileMetaData =
  created_by :: string
  row_groups :: "RowGroup list"
  isset_encryption_algorithm :: bool
  fmd_encryption_algorithm :: EncryptionAlgorithm
  fmd_footer_signing_key_metadata :: string
  metadata_len :: "32 word"

record FileCryptoMetaData =
  fcmd_encryption_algorithm :: EncryptionAlgorithm
  fcmd_key_metadata :: string

text \<open>\<open>EncryptionProperties(algorithm, key, fileAAD, aad)\<close>.\<close>

record EncryptionProperties =
  enc_algorithm :: ParquetCipher
  enc_key :: string
  enc_file_aad :: string
  enc_aad :: string

text \<open>\<open>FileDecryptionProperties\<close>, by its accessors. The key retriever
  (\<open>DecryptionKeyRetriever::GetKey\<close>) works on a state \<open>'s\<close> (the KMS, its caches) and may
  throw; a null retriever or verifier is \<open>None\<close>. \<open>ColumnPath\<close> (schema.h) is outside the
  sources: a path is the vector of its parts, \<open>ToDotString\<close> joins them with dots, and the
  comparison \<open>CmpColumnPath\<close> of the column map is taken to compare the dotted strings,
  so the map is keyed by them.\<close>

type_synonym 's key_retriever = "'s \<Rightarrow> string \<Rightarrow> exn + (string \<times> 's)"

record 's FileDecryptionProperties =
  getFooterKey :: string
  getColumnKey :: "string list \<Rightarrow> string"
  getKeyRetriever :: "'s key_retriever option"
  getAADPrefix :: string
  getAADPrefixVerifier :: "(string \<Rightarrow> exn + unit) option"
  checkFooterIntegrity :: bool


record 's ReaderProperties =
  file_decryption :: "'s FileDecryptionProperties option"
  fileAAD :: string
  column_map :: "(string \<rightharpoonup> string) option"

text \<open>An \<open>InputStream\<close> over the bytes of a column chunk, by its offset and length.\<close>

record InputStream =
  stream_start :: int
  stream_length :: int

text \<open>The functions of util/crypto.h, thrift.h and properties.h, which are outside the
  sources: Thrift (de)serialisation, with decryption when encryption properties are given
  (the deserialiser also returns the number of bytes it has read), AES encryption, the
  signature of a plaintext footer, the AAD of a module, the version test of PARQUET-816,
  and \<open>ReaderProperties::GetStream\<close>, which may throw.\<close>

record externals =
  DeserializeFileMetaData :: "EncryptionProperties option \<Rightarrow> string \<Rightarrow> exn + (FileMetaData \<times> 32 word)"
  DeserializeFileCryptoMetaData :: "string \<Rightarrow> exn + (FileCryptoMetaData \<times> 32 word)"
  DeserializeColumnMetaData :: "EncryptionProperties \<Rightarrow> string \<Rightarrow> exn + ColumnMetaData"
  SerializeFileMetaData :: "FileMetaData \<Rightarrow> string"
  SerializeColumnMetaData :: "ColumnMetaData \<Rightarrow> string"
  SerializeColumnChunk :: "ColumnChunk \<Rightarrow> string"
  Encrypt :: "EncryptionProperties \<Rightarrow> bool \<Rightarrow> string \<Rightarrow> exn + string"
  SignedFooterEncrypt :: "string \<Rightarrow> string \<Rightarrow> string \<Rightarrow> string \<Rightarrow> exn + string"
  createFooterAAD :: "string \<Rightarrow> string"
  createModuleAAD :: "string \<Rightarrow> nat \<Rightarrow> 16 word \<Rightarrow> 16 word \<Rightarrow> 16 word \<Rightarrow> string"
  VersionLt_PARQUET_816_FIXED :: "string \<Rightarrow> bool"
  GetStream :: "int \<Rightarrow> int \<Rightarrow> exn + InputStream"


subsection \<open>Column chunk metadata (metadata.cc)\<close>





subsection \<open>Writing a column chunk (metadata.cc, \<open>ColumnChunkMetaDataBuilder\<close>)\<close>

text \<open>\<open>properties_->column_encryption_props(path)\<close> by its accessors, and the members
  \<open>column_chunk_\<close> and \<open>column_metadata_\<close> of the builder.\<close>

record ColumnEncryptionProps =
  isEncrypted :: bool
  isEncryptedWithFooterKey :: bool
  getKeyMetaData :: string

record ColumnChunkMetaDataBuilder =
  column_chunk :: ColumnChunk
  column_metadata :: ColumnMetaData
  column_path_in_schema :: "string list"

text \<open>\<open>WriteTo(sink, encryption)\<close>. \<open>encrypt_md\<close> and \<open>footer_encryption\<close> are what
  \<open>properties_->column_encryption_props(column_->path())\<close> and
  \<open>properties_->footer_encryption()\<close> return (a null pointer is \<open>None\<close>). The sink is the
  bytes written so far. \<open>__set_f(v)\<close> of an optional field stores \<open>v\<close> and sets
  \<open>__isset.f\<close>.\<close>

definition WriteTo ::
  "externals \<Rightarrow> ColumnChunkMetaDataBuilder \<Rightarrow> string \<Rightarrow> EncryptionProperties option \<Rightarrow>
   ColumnEncryptionProps option \<Rightarrow> EncryptionProperties option \<Rightarrow>
   exn + (ColumnChunkMetaDataBuilder \<times> string)" where
  "WriteTo ext b sink encryption encrypt_md footer_encryption =
     (case (case encrypt_md of None \<Rightarrow> None | Some e \<Rightarrow> if isEncrypted e then Some e else None) of
        None \<Rightarrow>
          (let cc = (column_chunk b)\<lparr>isset_meta_data := True, meta_data := column_metadata b\<rparr>
           in Inr (b\<lparr>column_chunk := cc\<rparr>, sink @ SerializeColumnChunk ext cc))
      | Some e \<Rightarrow>
          (let ccmd =
                 (if isEncryptedWithFooterKey e
                  then \<lparr>isset_ENCRYPTION_WITH_FOOTER_KEY = True,
                        isset_ENCRYPTION_WITH_COLUMN_KEY = False,
                        eck_path_in_schema = [], eck_key_metadata = []\<rparr>
                  else \<lparr>isset_ENCRYPTION_WITH_FOOTER_KEY = False,
                        isset_ENCRYPTION_WITH_COLUMN_KEY = True,
                        eck_path_in_schema = column_path_in_schema b,
                        eck_key_metadata = getKeyMetaData e\<rparr>);
               cc1 = (column_chunk b)\<lparr>isset_crypto_metadata := True, crypto_metadata := ccmd\<rparr>
           in if (footer_encryption = None \<and> isEncrypted e) \<or> \<not> isEncryptedWithFooterKey e
              then
                (case encryption of
                   None \<Rightarrow> Inl memory_fault
                 | Some encrypt_props \<Rightarrow>
                     (case Encrypt ext encrypt_props True
                             (SerializeColumnMetaData ext (column_metadata b)) of
                        Inl x \<Rightarrow> Inl x
                      | Inr encrypted_column_metadata_bytes \<Rightarrow>
                          (let cc2 = cc1\<lparr>encrypted_column_metadata :=
                                            encrypted_column_metadata_bytes,
                                          isset_encrypted_column_metadata := True\<rparr>;
                               cc3 =
                                 (if footer_encryption = None
                                  then
                                    (let metadata_redacted =
                                           (column_metadata b)
                                             \<lparr>isset_statistics := False,
                                              isset_encoding_stats := False\<rparr>
                                     in cc2\<lparr>isset_meta_data := True,
                                            meta_data := metadata_redacted\<rparr>)
                                  else cc2\<lparr>isset_meta_data := True\<rparr>)
                           in Inr (b\<lparr>column_chunk := cc3\<rparr>,
                                   sink @ SerializeColumnChunk ext cc3))))
              else
                (let cc2 = cc1\<lparr>isset_meta_data := True, meta_data := column_metadata b\<rparr>
                 in Inr (b\<lparr>column_chunk := cc2\<rparr>, sink @ SerializeColumnChunk ext cc2))))"

subsection \<open>Plaintext footer signature (metadata.cc, \<open>FileMetaData::verify\<close>)\<close>

text \<open>\<open>0 == memcmp(a + off_a, b + off_b, n)\<close>.\<close>

definition memcmp_eq :: "string \<Rightarrow> nat \<Rightarrow> string \<Rightarrow> nat \<Rightarrow> nat \<Rightarrow> bool" where
  "memcmp_eq a off_a b off_b n = list_all (\<lambda>i. a ! (off_a + i) = b ! (off_b + i)) [0..<n]"

text \<open>\<open>verify(encryption, tail, tail_len)\<close>. \<open>tail\<close> is the bytes from the pointer to the
  end of its buffer; the code does not look at \<open>tail_len\<close>. The result of
  \<open>SignedFooterEncrypt\<close> is the \<open>encrypted_len\<close> bytes it has written. A read beyond the
  bytes at hand is a memory fault.\<close>

definition verify ::
  "externals \<Rightarrow> FileMetaData \<Rightarrow> EncryptionProperties option \<Rightarrow> string \<Rightarrow> 32 word \<Rightarrow> exn + bool" where
  "verify ext fmd encryption tail tail_len =
     (let serialized_data = SerializeFileMetaData ext fmd in
      case encryption of
        None \<Rightarrow> Inl memory_fault
      | Some enc \<Rightarrow>
          if length tail < 12 then Inl memory_fault
          else
            (let nonce = take 12 tail in
             case SignedFooterEncrypt ext serialized_data (enc_key enc) (enc_aad enc) nonce of
               Inl e \<Rightarrow> Inl e
             | Inr encrypted_buffer \<Rightarrow>
                 (let encrypted_len = length encrypted_buffer in
                  if encrypted_len < 16 \<or> length tail < 28 then Inl memory_fault
                  else Inr (memcmp_eq encrypted_buffer (encrypted_len - 16) tail 12 16))))"

subsection \<open>Reading the footer (file_reader.cc, \<open>SerializedFile::ParseMetaData\<close>)\<close>

text \<open>The file is the list of its bytes. \<open>ReadAt\<close> returns the bytes it could read. The
  length before the magic is read as a little-endian \<open>uint32_t\<close>.\<close>

definition ReadAt :: "string \<Rightarrow> int \<Rightarrow> int \<Rightarrow> string" where
  "ReadAt source pos nbytes =
     (if pos < 0 \<or> nbytes < 0 then [] else take (nat nbytes) (drop (nat pos) source))"

definition le_uint32 :: "string \<Rightarrow> 32 word" where
  "le_uint32 bs =
     (case bs of
        [b0, b1, b2, b3] \<Rightarrow>
          of_char b0 + 256 * of_char b1 + 65536 * of_char b2 + 16777216 * of_char b3
      | _ \<Rightarrow> 0)"

definition FOOTER_SIZE :: "32 word" where
  "FOOTER_SIZE = 8"

definition DEFAULT_FOOTER_READ_SIZE :: int where
  "DEFAULT_FOOTER_READ_SIZE = 64 * 1024"

definition PARQUET_MAGIC :: string where
  "PARQUET_MAGIC = ''PAR1''"

definition PARQUET_EMAGIC :: string where
  "PARQUET_EMAGIC = ''PARE''"

text \<open>The length before the magic and the bytes it counts, taken from the footer buffer
  when they are all in it and read from the file otherwise. Both branches of
  \<open>ParseMetaData\<close> start with this text. \<open>FOOTER_SIZE + metadata_len\<close> is a sum of
  \<open>uint32_t\<close> and wraps; the offset into the footer buffer is an \<open>int64_t\<close>.\<close>

definition read_footer_metadata :: "string \<Rightarrow> int \<Rightarrow> string \<Rightarrow> exn + (32 word \<times> string)" where
  "read_footer_metadata source footer_read_size footer_buffer =
     (let file_size = int (length source);
          metadata_len = le_uint32 (take 4 (drop (nat (footer_read_size - uint FOOTER_SIZE))
                                              footer_buffer));
          metadata_start = file_size - uint FOOTER_SIZE - uint metadata_len
      in if uint (FOOTER_SIZE + metadata_len) > file_size
         then Inl (ParquetException
                     ''Invalid parquet file. File is less than file metadata size.'')
         else if footer_read_size \<ge> uint (metadata_len + FOOTER_SIZE)
         then
           (let offset = footer_read_size - uint metadata_len - uint FOOTER_SIZE in
            if offset < 0 then Inl memory_fault
            else Inr (metadata_len, take (unat metadata_len) (drop (nat offset) footer_buffer)))
         else
           (let buf = ReadAt source metadata_start (uint metadata_len) in
            if int (length buf) \<noteq> uint metadata_len
            then Inl (ParquetException ''Invalid parquet file. Could not read metadata bytes.'')
            else Inr (metadata_len, buf)))"

text \<open>The tests on the algorithm and the AAD prefix, and the file AAD. Both branches
  hold this text.\<close>

definition file_aad_of :: "'s FileDecryptionProperties \<Rightarrow> EncryptionAlgorithm \<Rightarrow> exn + string" where
  "file_aad_of fd algo =
     (let supply = supply_aad_prefix (aad algo);
          unique = aad_file_unique (aad algo);
          prefix = aad_prefix (aad algo)
      in if algorithm algo \<noteq> AES_GCM_CTR_V1 \<and> algorithm algo \<noteq> AES_GCM_V1
         then Inl (ParquetException ''Unsupported algorithm'')
         else
           (case (if getAADPrefix fd \<noteq> []
                  then (if getAADPrefix fd \<noteq> prefix
                        then Inl (ParquetException
                                    ''ADD Prefix in file and in properties is not the same'')
                        else (case getAADPrefixVerifier fd of
                                None \<Rightarrow> Inr ()
                              | Some check \<Rightarrow> check prefix))
                  else Inr ()) of
              Inl e \<Rightarrow> Inl e
            | Inr u \<Rightarrow>
                if supply \<and> getAADPrefix fd = []
                then Inl (ParquetException
                  (''AAD prefix used for file encryption, but not stored in file and not '' @
                   ''supplied in decryption properties''))
                else if \<not> supply then Inr (prefix @ unique)
                else Inr (getAADPrefix fd @ unique)))"

text \<open>The footer key: the key given through the API, or else the key that the retriever
  returns for the key metadata. A \<open>KeyAccessDeniedException\<close> of the retriever is caught
  and a \<open>ParquetException\<close> is thrown. Both branches hold this text; they differ in the
  message for an empty key.\<close>

definition retrieve_footer_key ::
  "'s FileDecryptionProperties \<Rightarrow> string \<Rightarrow> string \<Rightarrow> 's \<Rightarrow> exn + (string \<times> 's)" where
  "retrieve_footer_key fd footer_key_metadata empty_key_message s =
     (case (if getFooterKey fd = []
            then (if footer_key_metadata = []
                  then Inl (ParquetException ''No footer key or key metadata'')
                  else (case getKeyRetriever fd of
                          None \<Rightarrow> Inl (ParquetException ''No footer key or key retriever'')
                        | Some retriever \<Rightarrow>
                            (case retriever s footer_key_metadata of
                               Inl (KeyAccessDeniedException what) \<Rightarrow>
                                 Inl (ParquetException
                                        (''Footer key: access denied '' @ what @ [CHR 0x0A]))
                             | Inl e \<Rightarrow> Inl e
                             | Inr r \<Rightarrow> Inr r)))
            else Inr (getFooterKey fd, s)) of
        Inl e \<Rightarrow> Inl e
      | Inr (footer_key_bytes, s1) \<Rightarrow>
          if footer_key_bytes = [] then Inl (ParquetException empty_key_message)
          else Inr (footer_key_bytes, s1))"

text \<open>\<open>FileMetaData::Make\<close>: the constructor of \<open>FileMetaDataImpl\<close> deserialises (and
  decrypts, when given encryption properties) and keeps the number of bytes read.\<close>

definition FileMetaData_Make ::
  "externals \<Rightarrow> EncryptionProperties option \<Rightarrow> string \<Rightarrow> exn + (FileMetaData \<times> 32 word)" where
  "FileMetaData_Make ext encryption buf =
     (case DeserializeFileMetaData ext encryption buf of
        Inl e \<Rightarrow> Inl e
      | Inr (m, n) \<Rightarrow> Inr (m\<lparr>metadata_len := n\<rparr>, n))"

record 's SerializedFile =
  file_metadata :: "FileMetaData option"
  file_crypto_metadata :: "FileCryptoMetaData option"
  properties :: "'s ReaderProperties"

text \<open>The branch for the magic \<open>PAR1\<close>: a plaintext footer, signed or not.\<close>

definition ParseMetaData_plaintext_footer ::
  "externals \<Rightarrow> string \<Rightarrow> 's ReaderProperties \<Rightarrow> int \<Rightarrow> string \<Rightarrow> 's \<Rightarrow>
   exn + ('s SerializedFile \<times> 's)" where
  "ParseMetaData_plaintext_footer ext source props footer_read_size footer_buffer s =
     (case read_footer_metadata source footer_read_size footer_buffer of
        Inl e \<Rightarrow> Inl e
      | Inr (metadata_len_read, metadata_buffer) \<Rightarrow>
          (case FileMetaData_Make ext None metadata_buffer of
             Inl e \<Rightarrow> Inl e
           | Inr (fm, read_metadata_len) \<Rightarrow>
               if isset_encryption_algorithm fm
               then
                 (case file_decryption props of
                    None \<Rightarrow> Inl (ParquetException ''No decryption properties are provided'')
                  | Some fd \<Rightarrow>
                      (case file_aad_of fd (fmd_encryption_algorithm fm) of
                         Inl e \<Rightarrow> Inl e
                       | Inr file_aad \<Rightarrow>
                           (let props1 = props\<lparr>fileAAD := file_aad\<rparr> in
                            if checkFooterIntegrity fd
                            then
                              (if metadata_len_read - read_metadata_len \<noteq> 28
                               then Inl (ParquetException
                                 ''Invalid parquet file. Cannot verify plaintextmode footer.'')
                               else
                                 (case retrieve_footer_key fd (fmd_footer_signing_key_metadata fm)
                                    (''Footer key unavailable. Could not verify '' @
                                     ''plaintext footer metadata'') s of
                                    Inl e \<Rightarrow> Inl e
                                  | Inr (footer_key_bytes, s1) \<Rightarrow>
                                      (let footer_aad = createFooterAAD ext file_aad;
                                           encryption =
                                             \<lparr>enc_algorithm =
                                                algorithm (fmd_encryption_algorithm fm),
                                              enc_key = footer_key_bytes,
                                              enc_file_aad = file_aad,
                                              enc_aad = footer_aad\<rparr>
                                       in case verify ext fm (Some encryption)
                                                 (drop (unat read_metadata_len) metadata_buffer)
                                                 28 of
                                            Inl e \<Rightarrow> Inl e
                                          | Inr ok \<Rightarrow>
                                              if \<not> ok
                                              then Inl (ParquetException
                                                (''Invalid parquet file. Could not verify '' @
                                                 ''plaintext footer metadata''))
                                              else Inr (\<lparr>file_metadata = Some fm,
                                                         file_crypto_metadata = None,
                                                         properties = props1\<rparr>, s1))))
                            else Inr (\<lparr>file_metadata = Some fm, file_crypto_metadata = None,
                                       properties = props1\<rparr>, s))))
               else Inr (\<lparr>file_metadata = Some fm, file_crypto_metadata = None,
                          properties = props\<rparr>, s)))"

text \<open>The branch for the magic \<open>PARE\<close>: an encrypted footer.\<close>

definition ParseMetaData_encrypted_footer ::
  "externals \<Rightarrow> string \<Rightarrow> 's ReaderProperties \<Rightarrow> int \<Rightarrow> string \<Rightarrow> 's \<Rightarrow>
   exn + ('s SerializedFile \<times> 's)" where
  "ParseMetaData_encrypted_footer ext source props footer_read_size footer_buffer s =
     (case read_footer_metadata source footer_read_size footer_buffer of
        Inl e \<Rightarrow> Inl e
      | Inr (footer_len, crypto_metadata_buffer) \<Rightarrow>
          (case file_decryption props of
             None \<Rightarrow> Inl (ParquetException
               ''No decryption properties are provided. Could not read encrypted footer metadata'')
           | Some fd \<Rightarrow>
               (case DeserializeFileCryptoMetaData ext crypto_metadata_buffer of
                  Inl e \<Rightarrow> Inl e
                | Inr (fcm, crypto_metadata_len) \<Rightarrow>
                    (case file_aad_of fd (fcmd_encryption_algorithm fcm) of
                       Inl e \<Rightarrow> Inl e
                     | Inr file_aad \<Rightarrow>
                         (let props1 = props\<lparr>fileAAD := file_aad\<rparr>;
                              footer_aad = createFooterAAD ext file_aad;
                              file_size = int (length source);
                              metadata_offset = file_size - uint FOOTER_SIZE - uint footer_len
                                                + uint crypto_metadata_len;
                              metadata_len_enc = footer_len - crypto_metadata_len;
                              metadata_buffer = ReadAt source metadata_offset
                                                  (uint metadata_len_enc)
                          in if int (length metadata_buffer) \<noteq> uint metadata_len_enc
                             then Inl (ParquetException
                               (''Invalid encrypted parquet file. '' @
                                ''Could not read footer metadata bytes.''))
                             else
                               (case retrieve_footer_key fd (fcmd_key_metadata fcm)
                                  (''Invalid footer encryption key. '' @
                                   ''Could not parse footer metadata'') s of
                                  Inl e \<Rightarrow> Inl e
                                | Inr (footer_key_bytes, s1) \<Rightarrow>
                                    (let footer_encryption =
                                           \<lparr>enc_algorithm =
                                              algorithm (fcmd_encryption_algorithm fcm),
                                            enc_key = footer_key_bytes,
                                            enc_file_aad = file_aad,
                                            enc_aad = footer_aad\<rparr>
                                     in case FileMetaData_Make ext (Some footer_encryption)
                                               metadata_buffer of
                                          Inl e \<Rightarrow> Inl e
                                        | Inr (fm, n) \<Rightarrow>
                                            Inr (\<lparr>file_metadata = Some fm,
                                                  file_crypto_metadata = Some fcm,
                                                  properties = props1\<rparr>, s1))))))))"

text \<open>The size of the read from the end of the file, the bytes read, and the last four
  of them.\<close>

definition footer_read_size_of :: "string \<Rightarrow> int" where
  "footer_read_size_of source = min (int (length source)) DEFAULT_FOOTER_READ_SIZE"

definition footer_buffer_of :: "string \<Rightarrow> string" where
  "footer_buffer_of source =
     ReadAt source (int (length source) - footer_read_size_of source) (footer_read_size_of source)"

definition footer_magic_of :: "string \<Rightarrow> string" where
  "footer_magic_of source =
     take 4 (drop (nat (footer_read_size_of source - 4)) (footer_buffer_of source))"

definition ParseMetaData ::
  "externals \<Rightarrow> string \<Rightarrow> 's ReaderProperties \<Rightarrow> 's \<Rightarrow> exn + ('s SerializedFile \<times> 's)" where
  "ParseMetaData ext source props s =
     (let file_size = int (length source) in
      if file_size < uint FOOTER_SIZE
      then Inl (ParquetException ''Corrupted file, smaller than file footer'')
      else
        (let footer_read_size = footer_read_size_of source;
             footer_buffer = footer_buffer_of source;
             bytes_read = int (length footer_buffer)
         in if bytes_read = footer_read_size \<and> footer_magic_of source = PARQUET_MAGIC
            then ParseMetaData_plaintext_footer ext source props footer_read_size footer_buffer s
            else if bytes_read = footer_read_size \<and> footer_magic_of source = PARQUET_EMAGIC
            then ParseMetaData_encrypted_footer ext source props footer_read_size footer_buffer s
            else Inl (ParquetException ''Invalid parquet file. Corrupt footer.'')))"

subsection \<open>Page readers of a row group (file_reader.cc, \<open>SerializedRowGroup\<close>)\<close>










subsection \<open>Opening a file (file_reader.cc, \<open>ParquetFileReader::Contents::Open\<close>)\<close>


subsection \<open>Column readers and the scan of a file (file_reader.cc)\<close>









subsection \<open>Sample collaborators for the reader and the writer\<close>

text \<open>Stand-ins for Thrift and AES, for runs on concrete files: a footer deserialiser
  that reads three bytes, a crypto metadata deserialiser that reads two, an encryption
  that puts the key in front, a footer signature whose tag is the first sixteen bytes
  of key and AAD, and a stream for every offset and length.\<close>

definition sample_algorithm :: EncryptionAlgorithm where
  "sample_algorithm =
     \<lparr>algorithm = AES_GCM_V1,
      aad = \<lparr>aad_prefix = [], aad_file_unique = ''unique'', supply_aad_prefix = False\<rparr>\<rparr>"

definition sample_column_metadata :: ColumnMetaData where
  "sample_column_metadata =
     \<lparr>encodings = [0], path_in_schema = [''a''], codec = 0, num_values = 3,
      total_uncompressed_size = 10, total_compressed_size = 10, data_page_offset = 4,
      dictionary_page_offset = 0, statistics = ''min=1,max=3'', encoding_stats = ''plain:1'',
      isset_dictionary_page_offset = False, isset_statistics = True,
      isset_encoding_stats = True\<rparr>"

text \<open>A column chunk as its default constructor leaves it: nothing set.\<close>

definition unset_column_metadata :: ColumnMetaData where
  "unset_column_metadata =
     \<lparr>encodings = [], path_in_schema = [], codec = 0, num_values = 0,
      total_uncompressed_size = 0, total_compressed_size = 0, data_page_offset = 0,
      dictionary_page_offset = 0, statistics = [], encoding_stats = [],
      isset_dictionary_page_offset = False, isset_statistics = False,
      isset_encoding_stats = False\<rparr>"

definition unset_column_chunk :: ColumnChunk where
  "unset_column_chunk =
     \<lparr>file_path = [], file_offset = 0, meta_data = unset_column_metadata,
      crypto_metadata = \<lparr>isset_ENCRYPTION_WITH_FOOTER_KEY = False,
                         isset_ENCRYPTION_WITH_COLUMN_KEY = False,
                         eck_path_in_schema = [], eck_key_metadata = []\<rparr>,
      encrypted_column_metadata = [], isset_meta_data = False,
      isset_crypto_metadata = False, isset_encrypted_column_metadata = False\<rparr>"

definition sample_builder :: ColumnChunkMetaDataBuilder where
  "sample_builder =
     \<lparr>column_chunk = unset_column_chunk, column_metadata = sample_column_metadata,
      column_path_in_schema = [''a'']\<rparr>"

text \<open>A column chunk that is encrypted with the key of its column.\<close>

definition sample_encrypted_chunk :: ColumnChunk where
  "sample_encrypted_chunk =
     unset_column_chunk
       \<lparr>crypto_metadata := \<lparr>isset_ENCRYPTION_WITH_FOOTER_KEY = False,
                            isset_ENCRYPTION_WITH_COLUMN_KEY = True,
                            eck_path_in_schema = [''a''], eck_key_metadata = ''kmeta-a''\<rparr>,
        isset_crypto_metadata := True,
        encrypted_column_metadata := ''ciphertext'',
        isset_encrypted_column_metadata := True\<rparr>"

definition sample_file_metadata :: "string \<Rightarrow> bool \<Rightarrow> FileMetaData" where
  "sample_file_metadata body is_signed =
     \<lparr>created_by = body, row_groups = [\<lparr>columns = [sample_encrypted_chunk], num_rows = 3\<rparr>],
      isset_encryption_algorithm = is_signed, fmd_encryption_algorithm = sample_algorithm,
      fmd_footer_signing_key_metadata = ''kmeta-footer'', metadata_len = 0\<rparr>"

definition sample_crypto_metadata :: FileCryptoMetaData where
  "sample_crypto_metadata =
     \<lparr>fcmd_encryption_algorithm = sample_algorithm, fcmd_key_metadata = ''kmeta-footer''\<rparr>"

definition sample_externals :: externals where
  "sample_externals =
     \<lparr>DeserializeFileMetaData =
        (\<lambda>encryption buf.
           if length buf < 3 then Inl (ParquetException ''Could not deserialize thrift'')
           else Inr (sample_file_metadata (take 3 buf) (encryption = None), 3)),
      DeserializeFileCryptoMetaData =
        (\<lambda>buf. if length buf < 2 then Inl (ParquetException ''Could not deserialize thrift'')
                else Inr (sample_crypto_metadata, 2)),
      DeserializeColumnMetaData = (\<lambda>encryption buf. Inr sample_column_metadata),
      SerializeFileMetaData = created_by,
      SerializeColumnMetaData = statistics,
      SerializeColumnChunk =
        (\<lambda>cc. (if isset_meta_data cc then ''M'' else ''-'') @ encrypted_column_metadata cc),
      Encrypt = (\<lambda>encryption is_metadata plaintext. Inr (enc_key encryption @ plaintext)),
      SignedFooterEncrypt =
        (\<lambda>plaintext k a nonce.
           Inr (nonce @ plaintext @ take 16 (k @ a @ replicate 16 (CHR ''t'')))),
      createFooterAAD = (\<lambda>file_aad. file_aad @ ''/footer''),
      createModuleAAD = (\<lambda>file_aad module rg col page. file_aad @ ''/module''),
      VersionLt_PARQUET_816_FIXED = (\<lambda>version. False),
      GetStream = (\<lambda>start len. Inr \<lparr>stream_start = start, stream_length = len\<rparr>)\<rparr>"

text \<open>Decryption properties with a key retriever whose state counts its calls: it
  denies the footer key metadata always and, after its first call, everything.\<close>

definition sample_retriever :: "nat key_retriever" where
  "sample_retriever n key_md =
     (if key_md = ''kmeta-footer'' \<or> 0 < n
      then Inl (KeyAccessDeniedException ''denied'')
      else Inr (''0123456789abcdef'', Suc n))"

definition sample_decryption :: "string \<Rightarrow> bool \<Rightarrow> nat FileDecryptionProperties" where
  "sample_decryption footer_key_bytes check =
     \<lparr>getFooterKey = footer_key_bytes, getColumnKey = (\<lambda>path. []),
      getKeyRetriever = Some sample_retriever, getAADPrefix = [],
      getAADPrefixVerifier = None, checkFooterIntegrity = check\<rparr>"

definition sample_reader_properties ::
  "string \<Rightarrow> bool \<Rightarrow> (string \<rightharpoonup> string) option \<Rightarrow> nat ReaderProperties" where
  "sample_reader_properties footer_key_bytes check cmap =
     \<lparr>file_decryption = Some (sample_decryption footer_key_bytes check), fileAAD = [],
      column_map = cmap\<rparr>"


definition short_trailer_file :: string where
  "short_trailer_file = ''abc'' @ ''xxxxx'' @ [CHR 0x08, CHR 0x00, CHR 0x00, CHR 0x00] @ ''PAR1''"








subsection \<open>JSON text (rapidjson)\<close>

text \<open>rapidjson is a third-party library and not among the sources. Its writer and its
  reader are modelled for the documents of key material: one object whose members are
  strings and booleans. The writer puts no white space; it escapes the quotation mark, the
  backslash and the bytes below \<open>0x20\<close> (as \<open>\b \f \n \r \t\<close> or \<open>\u00XX\<close>) and copies all
  other bytes. The reader skips white space between the tokens, decodes the escapes of
  JSON (a \<open>\uXXXX\<close> escape into UTF-8, surrogate pairs included) and rejects a raw byte
  below \<open>0x20\<close> in a string, a text that is not one object, and anything after the
  object. A member whose value is a number, \<open>null\<close>, an array or an object is kept as
  its text (\<open>JOther\<close>); the part of the reader for such a value is the parameter \<open>other\<close>,
  which returns the number of characters of the value at the head of the input, or \<open>None\<close>
  when there is none. A document is the list of its members in the order of the text;
  \<open>operator[]\<close> finds the first member of the name.\<close>

datatype json_value = JString string | JBool bool | JOther string

fun is_other :: "json_value \<Rightarrow> bool" where
  "is_other (JOther t) = True"
| "is_other v = False"

type_synonym json_document = "(string \<times> json_value) list"

definition hex_digit :: "nat \<Rightarrow> char" where
  "hex_digit n = ''0123456789ABCDEF'' ! n"

definition escape_char :: "char \<Rightarrow> string" where
  "escape_char c =
     (let n = (of_char c :: nat) in
      if c = CHR 0x22 then [CHR 0x5C, CHR 0x22]
      else if c = CHR 0x5C then [CHR 0x5C, CHR 0x5C]
      else if n = 8 then [CHR 0x5C, CHR ''b'']
      else if n = 9 then [CHR 0x5C, CHR ''t'']
      else if n = 10 then [CHR 0x5C, CHR ''n'']
      else if n = 12 then [CHR 0x5C, CHR ''f'']
      else if n = 13 then [CHR 0x5C, CHR ''r'']
      else if n < 32 then [CHR 0x5C, CHR ''u'', CHR ''0'', CHR ''0'', hex_digit (n div 16),
                            hex_digit (n mod 16)]
      else [c])"

definition write_string :: "string \<Rightarrow> string" where
  "write_string s = CHR 0x22 # concat (map escape_char s) @ [CHR 0x22]"

fun write_value :: "json_value \<Rightarrow> string" where
  "write_value (JString s) = write_string s"
| "write_value (JBool b) = (if b then ''true'' else ''false'')"
| "write_value (JOther t) = t"

fun write_members :: "json_document \<Rightarrow> string" where
  "write_members [] = []"
| "write_members [(name, v)] = write_string name @ CHR '':'' # write_value v"
| "write_members ((name, v) # m # ms) =
     write_string name @ CHR '':'' # write_value v @ CHR '','' # write_members (m # ms)"

definition json_write :: "json_document \<Rightarrow> string" where
  "json_write doc = CHR ''{'' # write_members doc @ ''}''"

definition is_ws :: "char \<Rightarrow> bool" where
  "is_ws c = (c = CHR '' '' \<or> c = CHR 0x0A \<or> c = CHR 0x0D \<or> c = CHR 0x09)"

definition skip_ws :: "string \<Rightarrow> string" where
  "skip_ws s = dropWhile is_ws s"

definition hex_value :: "char \<Rightarrow> nat option" where
  "hex_value c =
     (let n = (of_char c :: nat) in
      if 48 \<le> n \<and> n \<le> 57 then Some (n - 48)
      else if 65 \<le> n \<and> n \<le> 70 then Some (n - 55)
      else if 97 \<le> n \<and> n \<le> 102 then Some (n - 87)
      else None)"

definition parse_hex4 :: "string \<Rightarrow> nat option" where
  "parse_hex4 s =
     (case s of
        a # b # c # d # rest \<Rightarrow>
          (case (hex_value a, hex_value b, hex_value c, hex_value d) of
             (Some x, Some y, Some z, Some w) \<Rightarrow> Some (((x * 16 + y) * 16 + z) * 16 + w)
           | _ \<Rightarrow> None)
      | _ \<Rightarrow> None)"

definition utf8_encode :: "nat \<Rightarrow> string" where
  "utf8_encode cp =
     (if cp \<le> 0x7F then [char_of cp]
      else if cp \<le> 0x7FF then [char_of (0xC0 + cp div 64), char_of (0x80 + cp mod 64)]
      else if cp \<le> 0xFFFF
      then [char_of (0xE0 + cp div 4096), char_of (0x80 + cp div 64 mod 64),
            char_of (0x80 + cp mod 64)]
      else [char_of (0xF0 + cp div 262144), char_of (0x80 + cp div 4096 mod 64),
            char_of (0x80 + cp div 64 mod 64), char_of (0x80 + cp mod 64)])"

text \<open>The input after \<open>\u\<close>: the bytes of the code point and the number of characters
  read (four, or ten for a surrogate pair).\<close>

definition unicode_escape :: "string \<Rightarrow> (string \<times> nat) option" where
  "unicode_escape s =
     (case parse_hex4 s of
        None \<Rightarrow> None
      | Some hi \<Rightarrow>
          if 0xD800 \<le> hi \<and> hi \<le> 0xDFFF
          then
            (if hi \<le> 0xDBFF \<and> take 2 (drop 4 s) = [CHR 0x5C, CHR ''u'']
             then (case parse_hex4 (drop 6 s) of
                     None \<Rightarrow> None
                   | Some lo \<Rightarrow>
                       if 0xDC00 \<le> lo \<and> lo \<le> 0xDFFF
                       then Some (utf8_encode ((hi - 0xD800) * 1024 + (lo - 0xDC00) + 0x10000),
                                  10)
                       else None)
             else None)
          else Some (utf8_encode hi, 4))"

definition unescape :: "char \<Rightarrow> char option" where
  "unescape e =
     (if e = CHR 0x22 then Some (CHR 0x22)
      else if e = CHR 0x5C then Some (CHR 0x5C)
      else if e = CHR ''/'' then Some (CHR ''/'')
      else if e = CHR ''b'' then Some (CHR 0x08)
      else if e = CHR ''f'' then Some (CHR 0x0C)
      else if e = CHR ''n'' then Some (CHR 0x0A)
      else if e = CHR ''r'' then Some (CHR 0x0D)
      else if e = CHR ''t'' then Some (CHR 0x09)
      else None)"

text \<open>The input after the opening quotation mark: the string and the input after the
  closing one.\<close>

function parse_string_chars :: "string \<Rightarrow> (string \<times> string) option" where
  "parse_string_chars [] = None"
| "parse_string_chars (c # cs) =
     (if c = CHR 0x22 then Some ([], cs)
      else if c = CHR 0x5C
      then (case cs of
              [] \<Rightarrow> None
            | e # cs1 \<Rightarrow>
                if e = CHR ''u''
                then (case unicode_escape cs1 of
                        None \<Rightarrow> None
                      | Some (bytes, n) \<Rightarrow>
                          map_option (\<lambda>(s, r). (bytes @ s, r)) (parse_string_chars (drop n cs1)))
                else (case unescape e of
                        None \<Rightarrow> None
                      | Some ch \<Rightarrow>
                          map_option (\<lambda>(s, r). (ch # s, r)) (parse_string_chars cs1)))
      else if (of_char c :: nat) < 32 then None
      else map_option (\<lambda>(s, r). (c # s, r)) (parse_string_chars cs))"
  by pat_completeness auto
termination
  by (relation "measure length") auto

text \<open>The input at a value. The first character decides its kind: a quotation mark a
  string, \<open>t\<close> and \<open>f\<close> the two booleans, and anything else a value for \<open>other\<close>, which
  has one character at least.\<close>

definition parse_value :: "(string \<Rightarrow> nat option) \<Rightarrow> string \<Rightarrow> (json_value \<times> string) option" where
  "parse_value other inp =
     (case inp of
        [] \<Rightarrow> None
      | c # cs \<Rightarrow>
          if c = CHR 0x22
          then map_option (\<lambda>(s, r). (JString s, r)) (parse_string_chars cs)
          else if c = CHR ''t''
          then (if take 4 inp = ''true'' then Some (JBool True, drop 4 inp) else None)
          else if c = CHR ''f''
          then (if take 5 inp = ''false'' then Some (JBool False, drop 5 inp) else None)
          else (case other inp of
                  None \<Rightarrow> None
                | Some n \<Rightarrow> if n = 0 then None else Some (JOther (take n inp), drop n inp)))"

lemma parse_string_chars_shorter:
  "parse_string_chars cs = Some (s, r) \<Longrightarrow> length r < length cs"
proof (induction cs arbitrary: s r rule: parse_string_chars.induct)
  case 1
  then show ?case by simp
next
  case (2 c cs)
  show ?case
  proof (cases "c = CHR 0x22")
    case True
    with "2.prems" show ?thesis by simp
  next
    case quote: False
    show ?thesis
    proof (cases "c = CHR 0x5C")
      case False
      with quote "2.prems" obtain s' where "parse_string_chars cs = Some (s', r)"
        by (auto split: if_splits)
      with "2.IH"(3) [OF quote False] quote False "2.prems" show ?thesis
        by (fastforce split: if_splits)
    next
      case True
      with quote "2.prems" obtain e cs1 where cs: "cs = e # cs1"
        by (cases cs) auto
      show ?thesis
      proof (cases "e = CHR ''u''")
        case u: True
        with True quote cs "2.prems" obtain bytes n s' where
          ue: "unicode_escape cs1 = Some (bytes, n)" and
          rest: "parse_string_chars (drop n cs1) = Some (s', r)"
          by (auto split: option.splits)
        from "2.IH"(1) [OF quote True cs u ue refl rest]
        have "length r < length (drop n cs1)" .
        with cs show ?thesis by simp
      next
        case nu: False
        with True quote cs "2.prems" obtain ch s' where
          ue: "unescape e = Some ch" and rest: "parse_string_chars cs1 = Some (s', r)"
          by (auto split: option.splits)
        from "2.IH"(2) [OF quote True cs nu ue rest]
        have "length r < length cs1" .
        with cs show ?thesis by simp
      qed
    qed
  qed
qed

lemma parse_value_shorter: "parse_value other inp = Some (v, r) \<Longrightarrow> length r < length inp"
  by (cases inp)
     (auto simp: parse_value_def split: if_splits option.splits
        dest!: parse_string_chars_shorter)

lemma skip_ws_length: "length (skip_ws s) \<le> length s"
  by (simp add: skip_ws_def length_dropWhile_le)

lemma skip_ws_Cons_shorter: "skip_ws s = c # r \<Longrightarrow> length r < length s"
  using skip_ws_length [of s] by simp

text \<open>The input at the name of a member: the members up to the closing brace, and the
  input after it.\<close>

function parse_members ::
  "(string \<Rightarrow> nat option) \<Rightarrow> string \<Rightarrow> (json_document \<times> string) option" where
  "parse_members other inp =
     (case inp of
        [] \<Rightarrow> None
      | c # cs \<Rightarrow>
          if c \<noteq> CHR 0x22 then None
          else
            (case parse_string_chars cs of
               None \<Rightarrow> None
             | Some (name, r1) \<Rightarrow>
                 (case skip_ws r1 of
                    [] \<Rightarrow> None
                  | colon # r2 \<Rightarrow>
                      if colon \<noteq> CHR '':'' then None
                      else
                        (case parse_value other (skip_ws r2) of
                           None \<Rightarrow> None
                         | Some (v, r3) \<Rightarrow>
                             (case skip_ws r3 of
                                [] \<Rightarrow> None
                              | sep # r4 \<Rightarrow>
                                  if sep = CHR '',''
                                  then map_option (\<lambda>(ms, r). ((name, v) # ms, r))
                                         (parse_members other (skip_ws r4))
                                  else if sep = CHR ''}'' then Some ([(name, v)], r4)
                                  else None)))))"
  by pat_completeness auto
termination
proof (relation "measure (\<lambda>(other, inp). length inp)", goal_cases)
  case 1
  show ?case by simp
next
  case (2 other inp c cs x2 name r1 colon r2 x2a v r3 sep r4)
  have "length r1 < length cs"
    using 2 parse_string_chars_shorter [of cs name r1] by simp
  moreover have "length r2 < length r1"
    using 2 skip_ws_Cons_shorter [of r1 colon r2] by simp
  moreover have "length r3 < length (skip_ws r2)"
    using 2 parse_value_shorter [of other "skip_ws r2" v r3] by simp
  moreover have "length r4 < length r3"
    using 2 skip_ws_Cons_shorter [of r3 sep r4] by simp
  ultimately show ?case
    using 2 skip_ws_length [of r2] skip_ws_length [of r4] by simp
qed

declare parse_members.simps [simp del]

definition json_parse :: "(string \<Rightarrow> nat option) \<Rightarrow> string \<Rightarrow> json_document option" where
  "json_parse other text =
     (case skip_ws text of
        [] \<Rightarrow> None
      | c # r \<Rightarrow>
          if c \<noteq> CHR ''{'' then None
          else
            (case skip_ws r of
               [] \<Rightarrow> None
             | c1 # r1 \<Rightarrow>
                 if c1 = CHR ''}'' then (if skip_ws r1 = [] then Some [] else None)
                 else (case parse_members other (c1 # r1) of
                         None \<Rightarrow> None
                       | Some (ms, r2) \<Rightarrow> if skip_ws r2 = [] then Some ms else None)))"

subsection \<open>Key material (key_material.cc)\<close>

text \<open>\<open>std::string::c_str()\<close> read as a C string, and \<open>GetString()\<close> of a rapidjson value
  assigned to a \<open>std::string\<close>: the bytes before the first NUL.\<close>

definition c_str :: "string \<Rightarrow> string" where
  "c_str s = takeWhile (\<lambda>c. c \<noteq> CHR 0x00) s"

text \<open>Modelled from the spec: the field names and the key material type are constants
  of key_material.h and key_metadata.h, which are not among the sources; the spec has
  "Field names are exactly: keyMaterialType, internalStorage, isFooterKey, kmsInstanceID,
  kmsInstanceURL, masterKeyID, wrappedDEK, doubleWrapping, keyEncryptionKeyID, wrappedKEK,
  keyReference" and the type "PKMT1".\<close>

definition KEY_MATERIAL_TYPE_FIELD :: string where
  "KEY_MATERIAL_TYPE_FIELD = ''keyMaterialType''"

definition KEY_MATERIAL_TYPE1 :: string where
  "KEY_MATERIAL_TYPE1 = ''PKMT1''"

definition KEY_MATERIAL_INTERNAL_STORAGE_FIELD :: string where
  "KEY_MATERIAL_INTERNAL_STORAGE_FIELD = ''internalStorage''"

definition IS_FOOTER_KEY_FIELD :: string where
  "IS_FOOTER_KEY_FIELD = ''isFooterKey''"

definition KMS_INSTANCE_ID_FIELD :: string where
  "KMS_INSTANCE_ID_FIELD = ''kmsInstanceID''"

definition KMS_INSTANCE_URL_FIELD :: string where
  "KMS_INSTANCE_URL_FIELD = ''kmsInstanceURL''"

definition MASTER_KEY_ID_FIELD :: string where
  "MASTER_KEY_ID_FIELD = ''masterKeyID''"

definition WRAPPED_DEK_FIELD :: string where
  "WRAPPED_DEK_FIELD = ''wrappedDEK''"

definition DOUBLE_WRAPPING_FIELD :: string where
  "DOUBLE_WRAPPING_FIELD = ''doubleWrapping''"

definition KEK_ID_FIELD :: string where
  "KEK_ID_FIELD = ''keyEncryptionKeyID''"

definition WRAPPED_KEK_FIELD :: string where
  "WRAPPED_KEK_FIELD = ''wrappedKEK''"

definition KEY_REFERENCE_FIELD :: string where
  "KEY_REFERENCE_FIELD = ''keyReference''"

record KeyMaterial =
  is_footer_key :: bool
  kms_instance_id :: string
  kms_instance_url :: string
  master_key_id :: string
  is_double_wrapped :: bool
  kek_id :: string
  encoded_wrapped_kek :: string
  encoded_wrapped_dek :: string

text \<open>\<open>document[name].GetString()\<close> and \<open>document[name].GetBool()\<close>.\<close>

definition member_GetString :: "json_document \<Rightarrow> string \<Rightarrow> exn + string" where
  "member_GetString doc name =
     (case map_of doc name of Some (JString s) \<Rightarrow> Inr (c_str s) | _ \<Rightarrow> Inl rapidjson_assert)"

definition member_GetBool :: "json_document \<Rightarrow> string \<Rightarrow> exn + bool" where
  "member_GetBool doc name =
     (case map_of doc name of Some (JBool b) \<Rightarrow> Inr b | _ \<Rightarrow> Inl rapidjson_assert)"

text \<open>\<open>KeyMaterial::Parse(const rapidjson::Document&)\<close>.\<close>

definition Parse_document :: "json_document \<Rightarrow> exn + KeyMaterial" where
  "Parse_document key_material_json =
     (case member_GetBool key_material_json IS_FOOTER_KEY_FIELD of
        Inl e \<Rightarrow> Inl e
      | Inr footer \<Rightarrow>
          (case (if footer
                 then (case member_GetString key_material_json KMS_INSTANCE_ID_FIELD of
                         Inl e \<Rightarrow> Inl e
                       | Inr i \<Rightarrow>
                           (case member_GetString key_material_json KMS_INSTANCE_URL_FIELD of
                              Inl e \<Rightarrow> Inl e
                            | Inr u \<Rightarrow> Inr (i, u)))
                 else Inr ([], [])) of
             Inl e \<Rightarrow> Inl e
           | Inr (instance_id, instance_url) \<Rightarrow>
               (case member_GetString key_material_json MASTER_KEY_ID_FIELD of
                  Inl e \<Rightarrow> Inl e
                | Inr master \<Rightarrow>
                    (case member_GetString key_material_json WRAPPED_DEK_FIELD of
                       Inl e \<Rightarrow> Inl e
                     | Inr wrapped_dek \<Rightarrow>
                         (case member_GetBool key_material_json DOUBLE_WRAPPING_FIELD of
                            Inl e \<Rightarrow> Inl e
                          | Inr double_wrapped \<Rightarrow>
                              (case (if double_wrapped
                                     then (case member_GetString key_material_json KEK_ID_FIELD of
                                             Inl e \<Rightarrow> Inl e
                                           | Inr k \<Rightarrow>
                                               (case member_GetString key_material_json
                                                       WRAPPED_KEK_FIELD of
                                                  Inl e \<Rightarrow> Inl e
                                                | Inr w \<Rightarrow> Inr (k, w)))
                                     else Inr ([], [])) of
                                 Inl e \<Rightarrow> Inl e
                               | Inr (kek, wrapped_kek) \<Rightarrow>
                                   Inr \<lparr>is_footer_key = footer,
                                        kms_instance_id = instance_id,
                                        kms_instance_url = instance_url,
                                        master_key_id = master,
                                        is_double_wrapped = double_wrapped,
                                        kek_id = kek,
                                        encoded_wrapped_kek = wrapped_kek,
                                        encoded_wrapped_dek = wrapped_dek\<rparr>))))))"

text \<open>\<open>KeyMaterial::Parse(const std::string&)\<close>.\<close>

definition Parse :: "(string \<Rightarrow> nat option) \<Rightarrow> string \<Rightarrow> exn + KeyMaterial" where
  "Parse other key_material_string =
     (case json_parse other (c_str key_material_string) of
        None \<Rightarrow> Inl (ParquetException (''Failed to parse key metadata '' @ key_material_string))
      | Some document \<Rightarrow>
          (case member_GetString document KEY_MATERIAL_TYPE_FIELD of
             Inl e \<Rightarrow> Inl e
           | Inr key_material_type \<Rightarrow>
               if KEY_MATERIAL_TYPE1 \<noteq> key_material_type
               then Inl (ParquetException
                           (''Wrong key material type: '' @ key_material_type @ '' vs '' @
                            KEY_MATERIAL_TYPE1))
               else Parse_document document))"

text \<open>The object that \<open>CreateSerialized\<close> builds with \<open>AddMember\<close>, and
  \<open>CreateSerialized\<close>: its arguments are the fields of a \<open>KeyMaterial\<close> and
  \<open>is_internal_storage\<close>. The strings go in through \<open>c_str()\<close>, and the text comes out
  of the buffer through \<open>GetString()\<close>.\<close>

definition key_material_map :: "KeyMaterial \<Rightarrow> bool \<Rightarrow> json_document" where
  "key_material_map x is_internal_storage =
     [(KEY_MATERIAL_TYPE_FIELD, JString KEY_MATERIAL_TYPE1)] @
     (if is_internal_storage then [(KEY_MATERIAL_INTERNAL_STORAGE_FIELD, JBool True)] else []) @
     [(IS_FOOTER_KEY_FIELD, JBool (is_footer_key x))] @
     (if is_footer_key x
      then [(KMS_INSTANCE_ID_FIELD, JString (c_str (kms_instance_id x))),
            (KMS_INSTANCE_URL_FIELD, JString (c_str (kms_instance_url x)))]
      else []) @
     [(MASTER_KEY_ID_FIELD, JString (c_str (master_key_id x))),
      (WRAPPED_DEK_FIELD, JString (c_str (encoded_wrapped_dek x))),
      (DOUBLE_WRAPPING_FIELD, JBool (is_double_wrapped x))] @
     (if is_double_wrapped x
      then [(KEK_ID_FIELD, JString (c_str (kek_id x))),
            (WRAPPED_KEK_FIELD, JString (c_str (encoded_wrapped_kek x)))]
      else [])"

definition CreateSerialized :: "KeyMaterial \<Rightarrow> bool \<Rightarrow> string" where
  "CreateSerialized x is_internal_storage =
     c_str (json_write (key_material_map x is_internal_storage))"

text \<open>\<open>KeyMetadata::CreateSerializedForExternalMaterial\<close> (key_metadata.cc).\<close>

definition CreateSerializedForExternalMaterial :: "string \<Rightarrow> string" where
  "CreateSerializedForExternalMaterial key_reference =
     c_str (json_write
       [(KEY_MATERIAL_TYPE_FIELD, JString KEY_MATERIAL_TYPE1),
        (KEY_MATERIAL_INTERNAL_STORAGE_FIELD, JBool False),
        (KEY_REFERENCE_FIELD, JString (c_str key_reference))])"

text \<open>A reader that finds no number, \<open>null\<close>, array or object, for runs on the texts of
  \<open>CreateSerialized\<close>, which hold none.\<close>

definition no_other_value :: "string \<Rightarrow> nat option" where
  "no_other_value inp = None"

subsection \<open>Well-formed key material\<close>

text \<open>The fields that \<open>CreateSerialized\<close> does not write are empty, and no string holds
  a NUL byte. \<open>normalized\<close> clears the fields that are not written and cuts every string
  at its first NUL.\<close>

definition well_formed :: "KeyMaterial \<Rightarrow> bool" where
  "well_formed x =
     (list_all (\<lambda>s. CHR 0x00 \<notin> set s)
        [kms_instance_id x, kms_instance_url x, master_key_id x, kek_id x,
         encoded_wrapped_kek x, encoded_wrapped_dek x] \<and>
      (is_footer_key x \<or> (kms_instance_id x = [] \<and> kms_instance_url x = [])) \<and>
      (is_double_wrapped x \<or> (kek_id x = [] \<and> encoded_wrapped_kek x = [])))"

definition normalized :: "KeyMaterial \<Rightarrow> KeyMaterial" where
  "normalized x =
     \<lparr>is_footer_key = is_footer_key x,
      kms_instance_id = (if is_footer_key x then c_str (kms_instance_id x) else []),
      kms_instance_url = (if is_footer_key x then c_str (kms_instance_url x) else []),
      master_key_id = c_str (master_key_id x),
      is_double_wrapped = is_double_wrapped x,
      kek_id = (if is_double_wrapped x then c_str (kek_id x) else []),
      encoded_wrapped_kek = (if is_double_wrapped x then c_str (encoded_wrapped_kek x) else []),
      encoded_wrapped_dek = c_str (encoded_wrapped_dek x)\<rparr>"

section \<open>Properties\<close>

subsection \<open>Containers and strings\<close>

lemma map_insert_present: "m k = Some old \<Longrightarrow> map_insert m k v = m"
  by (simp add: map_insert_def)

lemma map_insert_absent: "m k = None \<Longrightarrow> map_insert m k v = m(k \<mapsto> v)"
  by (simp add: map_insert_def)

lemma SplitString_not_Nil: "SplitString v d \<noteq> []"
  by (subst SplitString.simps) (simp split: list.split)

lemma SplitString_no_delim: "d \<notin> set x \<Longrightarrow> SplitString x d = [x]"
proof -
  assume "d \<notin> set x"
  then have "dropWhile (\<lambda>c. c \<noteq> d) x = []" by (induction x) auto
  then show ?thesis by (subst SplitString.simps) (simp only: list.case)
qed

lemma SplitString_append_delim:
  assumes "d \<notin> set x"
  shows "SplitString (x @ d # rest) d = x # SplitString rest d"
proof -
  from assms have "dropWhile (\<lambda>c. c \<noteq> d) (x @ d # rest) = d # rest"
    by (induction x) auto
  moreover from assms have "takeWhile (\<lambda>c. c \<noteq> d) (x @ d # rest) = x"
    by (induction x) auto
  ultimately show ?thesis by (subst SplitString.simps) (simp only: list.case)
qed

lemma SplitString_join_with:
  "xs \<noteq> [] \<Longrightarrow> \<forall>x \<in> set xs. d \<notin> set x \<Longrightarrow> SplitString (join_with d xs) d = xs"
proof (induction d xs rule: join_with.induct)
  case (1 d)
  then show ?case by simp
next
  case (2 d x)
  then show ?case by (simp add: SplitString_no_delim)
next
  case (3 d x y ys)
  then show ?case by (simp add: SplitString_append_delim)
qed

lemma length_2_conv: "length xs = 2 \<longleftrightarrow> (\<exists>a b. xs = [a, b])"
  by (auto simp: numeral_2_eq_2 length_Suc_conv)

subsection \<open>Two-level cache\<close>

text \<open>A token without an entry gets a fresh entry, and the empty internal map is
  returned.\<close>

lemma GetOrCreateInternalCache_absent:
  "cache c access_token = None \<Longrightarrow>
     GetOrCreateInternalCache now c access_token ttl =
       (Map.empty,
        c\<lparr>cache := (cache c)(access_token \<mapsto> new_ExpiringCacheEntry now Map.empty ttl)\<rparr>)"
  by (simp add: GetOrCreateInternalCache_def map_insert_def map_subscript_def
      new_ExpiringCacheEntry_def)

text \<open>A token with an entry gets the internal map of that entry, and the cache stays as
  it is, whether the entry has expired or not: \<open>insert\<close> does not replace it.\<close>

lemma GetOrCreateInternalCache_present:
  "cache c access_token = Some e \<Longrightarrow>
     GetOrCreateInternalCache now c access_token ttl = (cached_item e, c)"
  by (simp add: GetOrCreateInternalCache_def map_insert_def map_subscript_def)

text \<open>
  C2. The claim: for a token whose external cache entry exists but has expired,
  \<open>GetOrCreateInternalCache\<close> returns a fresh empty internal map, not the previous contents
  of the expired entry (and an empty map when the token has no entry).

  The code does not do this for the expired entry. The test for expiry is there, and a
  fresh entry is built, but it is handed to \<open>insert\<close>, which leaves the stored entry in
  place; \<open>cache_[access_token]\<close> then reads the old entry. The theorem states what the
  code returns: the internal map of the expired entry, with the cache unchanged (so the
  entry stays expired as well). The part of the claim about a missing entry holds
  (\<open>GetOrCreateInternalCache_absent\<close>).
\<close>

theorem C2_expired_entry_is_returned:
  "cache c access_token = Some e \<Longrightarrow> IsExpired now e \<Longrightarrow>
     GetOrCreateInternalCache now c access_token ttl = (cached_item e, c)"
  by (rule GetOrCreateInternalCache_present)

theorem C2_expired_entry_is_returned_witness:
  "IsExpired 100 \<lparr>cached_item = [''kek1'' \<mapsto> ''KEK bytes''], expiration_timestamp = 50\<rparr> \<and>
   fst (GetOrCreateInternalCache 100
          \<lparr>cache = [''token'' \<mapsto> \<lparr>cached_item = [''kek1'' \<mapsto> ''KEK bytes''],
                                   expiration_timestamp = 50\<rparr>],
           last_cache_cleanup_timestamp = 0\<rparr>
          ''token'' 600000) ''kek1'' = Some ''KEK bytes''"
proof -
  let ?e = "\<lparr>cached_item = [''kek1'' \<mapsto> ''KEK bytes''], expiration_timestamp = 50\<rparr>"
  let ?c = "\<lparr>cache = [''token'' \<mapsto> ?e], last_cache_cleanup_timestamp = 0\<rparr>"
  have present: "cache ?c ''token'' = Some ?e" by simp
  have expired: "IsExpired 100 ?e" by (simp add: IsExpired_def)
  from C2_expired_entry_is_returned [OF present expired, of 600000] expired
  show ?thesis by simp
qed

subsection \<open>In-memory KMS\<close>

lemma StartKeyRotation_Inr:
  "StartKeyRotation trim b64 kms new_master_keys = Inr kms' \<Longrightarrow>
     ParseKeyList trim b64 new_master_keys = Inr (new_master_key_map kms') \<and>
     master_key_map kms' = master_key_map kms"
  by (auto simp: StartKeyRotation_def split: sum.splits)

text \<open>Between \<open>StartKeyRotation\<close> and \<open>FinishKeyRotation\<close>, wrapping and unwrapping both
  look the master key up in the staged map.\<close>

lemma WrapKeyInServer_staged:
  "StartKeyRotation trim b64 kms new_master_keys = Inr kms' \<Longrightarrow>
   ParseKeyList trim b64 new_master_keys = Inr staged \<Longrightarrow>
     WrapKeyInServer enc kms' key_bytes master_key_identifier =
       (case staged master_key_identifier of
          None \<Rightarrow> Inl (ParquetException (''Key not found: '' @ master_key_identifier))
        | Some master_key \<Rightarrow> enc key_bytes master_key master_key_identifier)"
  by (auto simp: StartKeyRotation_def WrapKeyInServer_def split: sum.splits)

lemma UnwrapKeyInServer_staged:
  "StartKeyRotation trim b64 kms new_master_keys = Inr kms' \<Longrightarrow>
   ParseKeyList trim b64 new_master_keys = Inr staged \<Longrightarrow>
     UnwrapKeyInServer dec kms' wrapped_key master_key_identifier =
       (case staged master_key_identifier of
          None \<Rightarrow> Inl (ParquetException (''Key not found: '' @ master_key_identifier))
        | Some master_key \<Rightarrow> dec wrapped_key master_key master_key_identifier)"
  by (auto simp: StartKeyRotation_def UnwrapKeyInServer_def split: sum.splits)

text \<open>\<open>FinishKeyRotation\<close> publishes the staged map and changes neither operation.\<close>

lemma FinishKeyRotation_maps:
  "master_key_map (FinishKeyRotation kms) = new_master_key_map kms \<and>
   new_master_key_map (FinishKeyRotation kms) = new_master_key_map kms"
  by (simp add: FinishKeyRotation_def)

lemma FinishKeyRotation_operations:
  "WrapKeyInServer enc (FinishKeyRotation kms) = WrapKeyInServer enc kms \<and>
   UnwrapKeyInServer dec (FinishKeyRotation kms) = UnwrapKeyInServer dec kms"
  by (simp add: FinishKeyRotation_def WrapKeyInServer_def UnwrapKeyInServer_def fun_eq_iff)

text \<open>
  C3. The claim: after \<open>StartKeyRotation\<close> and before \<open>FinishKeyRotation\<close>,
  \<open>WrapKeyInServer\<close> uses the staged map, and \<open>UnwrapKeyInServer\<close> of a key that was
  wrapped before \<open>StartKeyRotation\<close> still succeeds; after \<open>FinishKeyRotation\<close> both use
  the new map.

  The first and the last part hold (\<open>WrapKeyInServer_staged\<close>,
  \<open>FinishKeyRotation_operations\<close>). The middle part does not: \<open>UnwrapKeyInServer\<close> reads
  \<open>new_master_key_map_\<close> as well, and nothing ever reads \<open>master_key_map_\<close>. The theorem
  runs the code: the master key \<open>k1\<close> is installed, a key is wrapped under it, a rotation
  to a list without \<open>k1\<close> is started and not finished. \<open>master_key_map_\<close> still holds
  \<open>k1\<close>, and unwrapping under \<open>k1\<close> throws "Key not found", whatever the wrapped key is.
\<close>

theorem C3_unwrap_during_rotation_fails:
  "InitializeMasterKey TrimString b64 \<lparr>master_key_map = Map.empty, new_master_key_map = Map.empty\<rparr>
     [''k1:AAAA''] =
     Inr \<lparr>master_key_map = [''k1'' \<mapsto> b64 ''AAAA''], new_master_key_map = [''k1'' \<mapsto> b64 ''AAAA'']\<rparr> \<and>
   WrapKeyInServer enc
     \<lparr>master_key_map = [''k1'' \<mapsto> b64 ''AAAA''], new_master_key_map = [''k1'' \<mapsto> b64 ''AAAA'']\<rparr>
     dek ''k1'' = enc dek (b64 ''AAAA'') ''k1'' \<and>
   StartKeyRotation TrimString b64
     \<lparr>master_key_map = [''k1'' \<mapsto> b64 ''AAAA''], new_master_key_map = [''k1'' \<mapsto> b64 ''AAAA'']\<rparr>
     [''k2:BBBB''] =
     Inr \<lparr>master_key_map = [''k1'' \<mapsto> b64 ''AAAA''], new_master_key_map = [''k2'' \<mapsto> b64 ''BBBB'']\<rparr> \<and>
   UnwrapKeyInServer dec
     \<lparr>master_key_map = [''k1'' \<mapsto> b64 ''AAAA''], new_master_key_map = [''k2'' \<mapsto> b64 ''BBBB'']\<rparr>
     wrapped_key ''k1'' = Inl (ParquetException ''Key not found: k1'')"
  by (simp add: InitializeMasterKey_def StartKeyRotation_def ParseKeyList_def
      WrapKeyInServer_def UnwrapKeyInServer_def SplitString.simps TrimString_def is_blank_def
      map_insert_def)

text \<open>
  C10. For a master key identifier that is absent from the map the KMS reads,
  \<open>WrapKeyInServer\<close> and \<open>UnwrapKeyInServer\<close> throw the exception "Key not found: id",
  and \<open>GetMasterKeyFromServer\<close>, which has no such test, does not: its lookup with
  \<open>std::map::at\<close> ends in \<open>std::out_of_range\<close>.
\<close>

theorem C10_missing_master_key:
  "new_master_key_map kms master_key_identifier = None \<Longrightarrow>
     WrapKeyInServer enc kms key_bytes master_key_identifier =
       Inl (ParquetException (''Key not found: '' @ master_key_identifier)) \<and>
     UnwrapKeyInServer dec kms wrapped_key master_key_identifier =
       Inl (ParquetException (''Key not found: '' @ master_key_identifier)) \<and>
     GetMasterKeyFromServer kms master_key_identifier = Inl std_out_of_range \<and>
     GetMasterKeyFromServer kms master_key_identifier \<noteq>
       Inl (ParquetException (''Key not found: '' @ master_key_identifier))"
  by (simp add: WrapKeyInServer_def UnwrapKeyInServer_def GetMasterKeyFromServer_def)

theorem C10_missing_master_key_witness:
  "WrapKeyInServer (\<lambda>k m a. Inr (m @ k))
     \<lparr>master_key_map = [''k1'' \<mapsto> ''0123456789012345''],
      new_master_key_map = [''k1'' \<mapsto> ''0123456789012345'']\<rparr> ''dek'' ''k2'' =
     Inl (ParquetException ''Key not found: k2'') \<and>
   UnwrapKeyInServer (\<lambda>w m a. Inr w)
     \<lparr>master_key_map = [''k1'' \<mapsto> ''0123456789012345''],
      new_master_key_map = [''k1'' \<mapsto> ''0123456789012345'']\<rparr> ''wrapped'' ''k2'' =
     Inl (ParquetException ''Key not found: k2'') \<and>
   GetMasterKeyFromServer
     \<lparr>master_key_map = [''k1'' \<mapsto> ''0123456789012345''],
      new_master_key_map = [''k1'' \<mapsto> ''0123456789012345'']\<rparr> ''k2'' = Inl std_out_of_range"
proof -
  let ?kms = "\<lparr>master_key_map = [''k1'' \<mapsto> ''0123456789012345''],
               new_master_key_map = [''k1'' \<mapsto> ''0123456789012345'']\<rparr>"
  have absent: "new_master_key_map ?kms ''k2'' = None" by simp
  from C10_missing_master_key [OF absent, of "\<lambda>k m a. Inr (m @ k)" "''dek''" "\<lambda>w m a. Inr w" "''wrapped''"]
  show ?thesis by simp
qed

subsection \<open>Crypto factory: the loops of \<open>GetColumnEncryptionProperties\<close>\<close>

text \<open>One round of each loop, as an equation.\<close>

lemma column_names_loop_step:
  "trim cn \<noteq> [] \<Longrightarrow> map_of ec (trim cn) = None \<Longrightarrow> 0 \<le> dl \<Longrightarrow>
   rand s (nat dl) = (ck, s1) \<Longrightarrow>
   column_names_loop trim rand wrap kw dl kid (cn # cns) ec s =
     (case wrap kw s1 ck kid False of
        Inl e \<Rightarrow> Inl e
      | Inr (md, s2) \<Rightarrow>
          column_names_loop trim rand wrap kw dl kid cns
            (ec @ [(trim cn, \<lparr>column_path = trim cn, key = ck, key_metadata = md\<rparr>)]) s2)"
  by (simp add: Let_def split: sum.split prod.split)

lemma column_names_loop_stop:
  "column_names_loop trim rand wrap kw dl kid (cn # cns) ec s = Inr r \<Longrightarrow>
     trim cn \<noteq> [] \<and> map_of ec (trim cn) = None \<and> 0 \<le> dl"
  by (simp add: Let_def split: if_splits)

lemma key_to_columns_loop_skip:
  "trim ktc = [] \<Longrightarrow>
   key_to_columns_loop trim rand wrap kw dl (ktc # ktcs) ec s =
     key_to_columns_loop trim rand wrap kw dl ktcs ec s"
  by simp

lemma key_to_columns_loop_step:
  "trim ktc \<noteq> [] \<Longrightarrow> SplitString (trim ktc) (CHR '':'') = [k, cs] \<Longrightarrow> trim k \<noteq> [] \<Longrightarrow>
   key_to_columns_loop trim rand wrap kw dl (ktc # ktcs) ec s =
     (case column_names_loop trim rand wrap kw dl (trim k)
             (SplitString (trim cs) (CHR '','')) ec s of
        Inl e \<Rightarrow> Inl e
      | Inr (ec1, s1) \<Rightarrow> key_to_columns_loop trim rand wrap kw dl ktcs ec1 s1)"
  by (simp add: Let_def SplitString_not_Nil)

lemma key_to_columns_loop_stop:
  "key_to_columns_loop trim rand wrap kw dl (ktc # ktcs) ec s = Inr r \<Longrightarrow> trim ktc \<noteq> [] \<Longrightarrow>
     \<exists>k cs. SplitString (trim ktc) (CHR '':'') = [k, cs] \<and> trim k \<noteq> []"
  by (auto simp: Let_def length_2_conv split: if_splits)

lemma key_to_columns_loop_throw:
  "trim ktc \<noteq> [] \<Longrightarrow>
   length (SplitString (trim ktc) (CHR '':'')) \<noteq> 2 \<or> trim (SplitString (trim ktc) (CHR '':'') ! 0) = [] \<Longrightarrow>
   \<exists>msg. key_to_columns_loop trim rand wrap kw dl (ktc # ktcs) ec s = Inl (ParquetException msg)"
  by (auto simp: Let_def)

lemmas [simp del] = column_names_loop.simps(2) key_to_columns_loop.simps(2)

text \<open>What a run of the loops that ends without exception says about the column names:
  none is empty, none occurs twice, none was in the map before, and they are the new keys
  of the map.\<close>

lemma column_names_loop_Inr:
  "column_names_loop trim rand wrap kw dl kid cns ec s = Inr (ec', s') \<Longrightarrow>
     [] \<notin> set (map trim cns) \<and> distinct (map trim cns) \<and>
     set (map trim cns) \<inter> fst ` set ec = {} \<and> map fst ec' = map fst ec @ map trim cns"
proof (induction cns arbitrary: ec s)
  case Nil
  then show ?case by simp
next
  case (Cons cn cns)
  let ?n = "trim cn"
  have "?n \<noteq> [] \<and> map_of ec ?n = None \<and> 0 \<le> dl"
    using Cons.prems by (rule column_names_loop_stop)
  then have n: "?n \<noteq> []" and fresh: "map_of ec ?n = None" and dl: "0 \<le> dl"
    by simp_all
  obtain ck s1 where r: "rand s (nat dl) = (ck, s1)" by (cases "rand s (nat dl)")
  from Cons.prems n fresh dl r obtain md s2 where
    w: "wrap kw s1 ck kid False = Inr (md, s2)" and
    rest: "column_names_loop trim rand wrap kw dl kid cns
             (ec @ [(?n, \<lparr>column_path = ?n, key = ck, key_metadata = md\<rparr>)]) s2 = Inr (ec', s')"
    by (auto simp: column_names_loop_step split: sum.splits)
  from Cons.IH [OF rest] fresh n show ?case
    by (auto simp: map_of_eq_None_iff)
qed

lemma key_to_columns_loop_Inr:
  "key_to_columns_loop trim rand wrap kw dl ktcs ec s = Inr (ec', s') \<Longrightarrow>
     (\<forall>seg \<in> set (filter (\<lambda>seg. seg \<noteq> []) (map trim ktcs)).
         segment_key trim seg \<noteq> [] \<and> [] \<notin> set (segment_columns trim seg)) \<and>
     distinct (concat (map (segment_columns trim) (filter (\<lambda>seg. seg \<noteq> []) (map trim ktcs)))) \<and>
     set (concat (map (segment_columns trim) (filter (\<lambda>seg. seg \<noteq> []) (map trim ktcs))))
       \<inter> fst ` set ec = {} \<and>
     map fst ec' =
       map fst ec @ concat (map (segment_columns trim) (filter (\<lambda>seg. seg \<noteq> []) (map trim ktcs)))"
proof (induction ktcs arbitrary: ec s)
  case Nil
  then show ?case by simp
next
  case (Cons ktc ktcs)
  show ?case
  proof (cases "trim ktc = []")
    case True
    with Cons.prems have "key_to_columns_loop trim rand wrap kw dl ktcs ec s = Inr (ec', s')"
      by (simp add: key_to_columns_loop_skip)
    from Cons.IH [OF this] True show ?thesis by simp
  next
    case False
    let ?cur = "trim ktc"
    have "\<exists>k cs. SplitString ?cur (CHR '':'') = [k, cs] \<and> trim k \<noteq> []"
      using Cons.prems False by (rule key_to_columns_loop_stop)
    then obtain k cs where parts: "SplitString ?cur (CHR '':'') = [k, cs]" and kne: "trim k \<noteq> []"
      by blast
    from Cons.prems False parts kne obtain ec1 s1 where
      inner: "column_names_loop trim rand wrap kw dl (trim k)
                (SplitString (trim cs) (CHR '','')) ec s = Inr (ec1, s1)" and
      rest: "key_to_columns_loop trim rand wrap kw dl ktcs ec1 s1 = Inr (ec', s')"
      by (auto simp: key_to_columns_loop_step split: sum.splits)
    define cur_cols where "cur_cols = map trim (SplitString (trim cs) (CHR '',''))"
    define rest_segs where "rest_segs = filter (\<lambda>seg. seg \<noteq> []) (map trim ktcs)"
    define rest_cols where "rest_cols = concat (map (segment_columns trim) rest_segs)"
    have sk: "segment_key trim ?cur = trim k" and sc: "segment_columns trim ?cur = cur_cols"
      by (simp_all add: segment_key_def segment_columns_def parts cur_cols_def)
    have i: "[] \<notin> set cur_cols" "distinct cur_cols" "set cur_cols \<inter> fst ` set ec = {}"
      "map fst ec1 = map fst ec @ cur_cols"
      using column_names_loop_Inr [OF inner] by (simp_all add: cur_cols_def)
    have r: "\<forall>seg \<in> set rest_segs. segment_key trim seg \<noteq> [] \<and> [] \<notin> set (segment_columns trim seg)"
      "distinct rest_cols" "set rest_cols \<inter> fst ` set ec1 = {}"
      "map fst ec' = map fst ec1 @ rest_cols"
      using Cons.IH [OF rest] by (simp_all add: rest_cols_def rest_segs_def)
    have "set (map fst ec1) = set (map fst ec @ cur_cols)"
      using i(4) by simp
    then have dom1: "fst ` set ec1 = fst ` set ec \<union> set cur_cols"
      by simp
    have segs: "filter (\<lambda>seg. seg \<noteq> []) (map trim (ktc # ktcs)) = ?cur # rest_segs"
      using False by (simp add: rest_segs_def)
    have cols: "concat (map (segment_columns trim) (?cur # rest_segs)) = cur_cols @ rest_cols"
      by (simp add: sc rest_cols_def)
    have g1: "\<forall>seg \<in> set (?cur # rest_segs).
         segment_key trim seg \<noteq> [] \<and> [] \<notin> set (segment_columns trim seg)"
      using r(1) i(1) kne by (simp add: sk sc)
    have g2: "distinct (cur_cols @ rest_cols)"
      using i(2) r(2,3) dom1 unfolding distinct_append by blast
    have g3: "set (cur_cols @ rest_cols) \<inter> fst ` set ec = {}"
      using i(3) r(3) dom1 unfolding set_append by blast
    have g4: "map fst ec' = map fst ec @ cur_cols @ rest_cols"
      using i(4) r(4) by simp
    show ?thesis
      unfolding segs cols using g1 g2 g3 g4 by blast
  qed
qed


lemma GetColumnEncryptionProperties_Inr:
  assumes "GetColumnEncryptionProperties trim rand wrap dl ck kw s = Inr (ec', s')"
  shows "(\<forall>seg \<in> set (nonempty_segments trim ck).
            segment_key trim seg \<noteq> [] \<and> [] \<notin> set (segment_columns trim seg)) \<and>
         distinct (concat (map (segment_columns trim) (nonempty_segments trim ck)))"
proof -
  from assms have
    "key_to_columns_loop trim rand wrap kw dl (SplitString ck (CHR '';'')) [] s = Inr (ec', s')"
    by (auto simp: GetColumnEncryptionProperties_def Let_def split: sum.splits if_splits)
  from key_to_columns_loop_Inr [OF this] show ?thesis
    by (simp add: nonempty_segments_def)
qed

text \<open>With a key wrapper that does not throw, the loops end in a \<open>ParquetException\<close> or
  without exception.\<close>

lemma column_names_loop_Inl:
  "column_names_loop trim rand wrap kw dl kid cns ec s = Inl e \<Longrightarrow>
     wrap_never_throws wrap \<Longrightarrow> 0 \<le> dl \<Longrightarrow> \<exists>msg. e = ParquetException msg"
proof (induction cns arbitrary: ec s)
  case Nil
  then show ?case by simp
next
  case (Cons cn cns)
  obtain ck s1 where r: "rand s (nat dl) = (ck, s1)" by (cases "rand s (nat dl)")
  from Cons.prems(2) obtain md s2 where w: "wrap kw s1 ck kid False = Inr (md, s2)"
    unfolding wrap_never_throws_def by (metis surj_pair)
  show ?case
  proof (cases "trim cn = [] \<or> map_of ec (trim cn) \<noteq> None")
    case True
    with Cons.prems(1) show ?thesis
      by (auto simp: column_names_loop.simps(2) Let_def split: if_splits)
  next
    case False
    with Cons.prems r w have "column_names_loop trim rand wrap kw dl kid cns
        (ec @ [(trim cn, \<lparr>column_path = trim cn, key = ck, key_metadata = md\<rparr>)]) s2 = Inl e"
      by (simp add: column_names_loop_step)
    from Cons.IH [OF this Cons.prems(2,3)] show ?thesis .
  qed
qed

lemma key_to_columns_loop_Inl:
  "key_to_columns_loop trim rand wrap kw dl ktcs ec s = Inl e \<Longrightarrow>
     wrap_never_throws wrap \<Longrightarrow> 0 \<le> dl \<Longrightarrow> \<exists>msg. e = ParquetException msg"
proof (induction ktcs arbitrary: ec s)
  case Nil
  then show ?case by simp
next
  case (Cons ktc ktcs)
  show ?case
  proof (cases "trim ktc = []")
    case True
    with Cons.prems(1) have "key_to_columns_loop trim rand wrap kw dl ktcs ec s = Inl e"
      by (simp add: key_to_columns_loop_skip)
    from Cons.IH [OF this Cons.prems(2,3)] show ?thesis .
  next
    case False
    show ?thesis
    proof (cases "length (SplitString (trim ktc) (CHR '':'')) \<noteq> 2 \<or>
                  trim (SplitString (trim ktc) (CHR '':'') ! 0) = []")
      case True
      have "\<exists>msg. key_to_columns_loop trim rand wrap kw dl (ktc # ktcs) ec s =
                    Inl (ParquetException msg)"
        using False True by (rule key_to_columns_loop_throw)
      with Cons.prems(1) show ?thesis by auto
    next
      case ok: False
      then obtain k cs where parts: "SplitString (trim ktc) (CHR '':'') = [k, cs]"
        and kne: "trim k \<noteq> []"
        by (auto simp: length_2_conv)
      let ?cns = "SplitString (trim cs) (CHR '','')"
      have step: "key_to_columns_loop trim rand wrap kw dl (ktc # ktcs) ec s =
         (case column_names_loop trim rand wrap kw dl (trim k) ?cns ec s of
            Inl e \<Rightarrow> Inl e
          | Inr (ec1, s1) \<Rightarrow> key_to_columns_loop trim rand wrap kw dl ktcs ec1 s1)"
        using False parts kne by (rule key_to_columns_loop_step)
      show ?thesis
      proof (cases "column_names_loop trim rand wrap kw dl (trim k) ?cns ec s")
        case (Inl e')
        with Cons.prems(1) step have "e' = e" by simp
        with Inl column_names_loop_Inl [OF _ Cons.prems(2,3)] show ?thesis by blast
      next
        case (Inr r)
        obtain ec1 s1 where "r = (ec1, s1)" by (cases r)
        with Inr Cons.prems(1) step
        have "key_to_columns_loop trim rand wrap kw dl ktcs ec1 s1 = Inl e" by simp
        from Cons.IH [OF this Cons.prems(2,3)] show ?thesis .
      qed
    qed
  qed
qed

lemma GetColumnEncryptionProperties_Inl:
  assumes "GetColumnEncryptionProperties trim rand wrap dl ck kw s = Inl e"
    and "wrap_never_throws wrap" and "0 \<le> dl"
  shows "\<exists>msg. e = ParquetException msg"
proof (cases "key_to_columns_loop trim rand wrap kw dl (SplitString ck (CHR '';'')) [] s")
  case (Inl e')
  with assms(1) have "e' = e" by (simp add: GetColumnEncryptionProperties_def)
  with Inl key_to_columns_loop_Inl [OF _ assms(2,3)] show ?thesis by blast
next
  case (Inr r)
  with assms(1) show ?thesis
    by (auto simp: GetColumnEncryptionProperties_def split: prod.splits if_splits)
qed

text \<open>An empty segment is skipped: the loop over all segments is the loop over the
  non-empty ones.\<close>

lemma key_to_columns_loop_filter:
  "key_to_columns_loop trim rand wrap kw dl (filter (\<lambda>seg. trim seg \<noteq> []) ktcs) ec s =
   key_to_columns_loop trim rand wrap kw dl ktcs ec s"
proof (induction ktcs arbitrary: ec s)
  case Nil
  then show ?case by simp
next
  case (Cons ktc ktcs)
  show ?case
  proof (cases "trim ktc = []")
    case True
    then show ?thesis by (simp add: key_to_columns_loop_skip Cons.IH)
  next
    case False
    then show ?thesis
      by (simp add: key_to_columns_loop.simps(2) Let_def Cons.IH split: sum.split prod.split)
  qed
qed

text \<open>
  C6. Parsing the \<open>column_keys\<close> string fails with a configuration error when a column
  name is listed more than once (under one key or under several), when a key name or a
  column name is empty after trimming, or when \<open>column_keys\<close> is empty while
  \<open>uniform_encryption\<close> is false; setting both is a configuration error as well.

  A configuration error is a \<open>ParquetException\<close> of the factory. For the three defects of
  the string (\<open>column_keys_rejected\<close>), \<open>GetColumnEncryptionProperties\<close> throws, whatever
  the key wrapper does; when the wrapper itself does not throw (and the key length is not
  negative), what is thrown is a \<open>ParquetException\<close>. The two tests on the configuration are
  the first statements of \<open>GetFileEncryptionProperties\<close>.
\<close>

theorem C6_column_keys_errors:
  "(column_keys_rejected trim ck \<longrightarrow>
      isl (GetColumnEncryptionProperties trim rand wrap dl ck kw s) \<and>
      (wrap_never_throws wrap \<and> 0 \<le> dl \<longrightarrow>
         (\<exists>msg. GetColumnEncryptionProperties trim rand wrap dl ck kw s = Inl (ParquetException msg)))) \<and>
   (column_keys cfg = [] \<and> \<not> uniform_encryption cfg \<longrightarrow>
      GetFileEncryptionProperties trim rand new_key_wrapper wrap conn (Some cfg) s =
        Inl (ParquetException ''Either column_keys or uniform_encryption must be set'')) \<and>
   (column_keys cfg \<noteq> [] \<and> uniform_encryption cfg \<longrightarrow>
      GetFileEncryptionProperties trim rand new_key_wrapper wrap conn (Some cfg) s =
        Inl (ParquetException ''Cannot set both column_keys and uniform_encryption''))"
proof (intro conjI impI)
  assume rej: "column_keys_rejected trim ck"
  show isl: "isl (GetColumnEncryptionProperties trim rand wrap dl ck kw s)"
  proof (cases "GetColumnEncryptionProperties trim rand wrap dl ck kw s")
    case (Inl e)
    then show ?thesis by simp
  next
    case (Inr r)
    obtain ec' s' where "r = (ec', s')" by (cases r)
    with Inr GetColumnEncryptionProperties_Inr [of trim rand wrap dl ck kw s ec' s'] rej
    show ?thesis by (auto simp: column_keys_rejected_def list_ex_iff)
  qed
  assume "wrap_never_throws wrap \<and> 0 \<le> dl"
  with isl GetColumnEncryptionProperties_Inl [of trim rand wrap dl ck kw s]
  show "\<exists>msg. GetColumnEncryptionProperties trim rand wrap dl ck kw s = Inl (ParquetException msg)"
    by (cases "GetColumnEncryptionProperties trim rand wrap dl ck kw s") auto
next
  assume "column_keys cfg = [] \<and> \<not> uniform_encryption cfg"
  then show "GetFileEncryptionProperties trim rand new_key_wrapper wrap conn (Some cfg) s =
        Inl (ParquetException ''Either column_keys or uniform_encryption must be set'')"
    by (simp add: GetFileEncryptionProperties_def)
next
  assume "column_keys cfg \<noteq> [] \<and> uniform_encryption cfg"
  then show "GetFileEncryptionProperties trim rand new_key_wrapper wrap conn (Some cfg) s =
        Inl (ParquetException ''Cannot set both column_keys and uniform_encryption'')"
    by (simp add: GetFileEncryptionProperties_def)
qed

theorem C6_column_keys_errors_witness:
  "isl (GetColumnEncryptionProperties TrimString sample_rand sample_wrap 16 ''k1:a, b;k2:b''
          sample_key_wrapper ()) \<and>
   (\<exists>msg. GetColumnEncryptionProperties TrimString sample_rand sample_wrap 16 ''k1:a, b;k2:b''
          sample_key_wrapper () = Inl (ParquetException msg)) \<and>
   GetFileEncryptionProperties TrimString sample_rand sample_new_key_wrapper sample_wrap ()
       (Some (sample_config [] False 128)) () =
     Inl (ParquetException ''Either column_keys or uniform_encryption must be set'') \<and>
   GetFileEncryptionProperties TrimString sample_rand sample_new_key_wrapper sample_wrap ()
       (Some (sample_config ''k1:a'' True 128)) () =
     Inl (ParquetException ''Cannot set both column_keys and uniform_encryption'')"
proof -
  have r: "column_keys_rejected TrimString ''k1:a, b;k2:b''" by code_simp
  have w: "wrap_never_throws sample_wrap \<and> (0::int) \<le> 16"
    by (simp add: wrap_never_throws_def sample_wrap_def)
  have a: "column_keys (sample_config [] False 128) = [] \<and>
           \<not> uniform_encryption (sample_config [] False 128)"
    by (simp add: sample_config_def)
  have b: "column_keys (sample_config ''k1:a'' True 128) \<noteq> [] \<and>
           uniform_encryption (sample_config ''k1:a'' True 128)"
    by (simp add: sample_config_def)
  from r w a
    C6_column_keys_errors [of TrimString "''k1:a, b;k2:b''" sample_rand sample_wrap 16 sample_key_wrapper "()"
            "sample_config [] False 128" sample_new_key_wrapper "()"]
  have 1: "isl (GetColumnEncryptionProperties TrimString sample_rand sample_wrap 16 ''k1:a, b;k2:b''
          sample_key_wrapper ())"
    and 2: "\<exists>msg. GetColumnEncryptionProperties TrimString sample_rand sample_wrap 16 ''k1:a, b;k2:b''
          sample_key_wrapper () = Inl (ParquetException msg)"
    and 3: "GetFileEncryptionProperties TrimString sample_rand sample_new_key_wrapper sample_wrap ()
       (Some (sample_config [] False 128)) () =
     Inl (ParquetException ''Either column_keys or uniform_encryption must be set'')"
    by blast+
  from b
    C6_column_keys_errors [of TrimString "''k1:a, b;k2:b''" sample_rand sample_wrap 16 sample_key_wrapper "()"
            "sample_config ''k1:a'' True 128" sample_new_key_wrapper "()"]
  have 4: "GetFileEncryptionProperties TrimString sample_rand sample_new_key_wrapper sample_wrap ()
       (Some (sample_config ''k1:a'' True 128)) () =
     Inl (ParquetException ''Cannot set both column_keys and uniform_encryption'')"
    by blast
  from 1 2 3 4 show ?thesis by blast
qed

text \<open>The messages of the three defects, on sample strings.\<close>

lemma column_keys_duplicate_column_example: "GetColumnEncryptionProperties TrimString sample_rand sample_wrap 16 ''k1:a, b;k2:b''
     sample_key_wrapper () = Inl (ParquetException ''Multiple keys defined for the same column: b'')"
  by code_simp

lemma column_keys_empty_key_example: "GetColumnEncryptionProperties TrimString sample_rand sample_wrap 16 '' :a''
     sample_key_wrapper () = Inl (ParquetException ''Empty key name in column keys property.'')"
  by code_simp

lemma column_keys_empty_column_example: "GetColumnEncryptionProperties TrimString sample_rand sample_wrap 16 ''k1:a,,b''
     sample_key_wrapper () =
       Inl (ParquetException ''Empty column name in column keys property for key: k1'')"
  by code_simp

text \<open>The converse: with a key wrapper that does not throw, the loops end without
  exception on column names that are not empty and not listed twice.\<close>

lemma column_names_loop_succeeds:
  assumes "wrap_never_throws wrap" and "0 \<le> dl"
  shows "[] \<notin> set (map trim cns) \<Longrightarrow> distinct (map trim cns) \<Longrightarrow>
         set (map trim cns) \<inter> fst ` set ec = {} \<Longrightarrow>
         \<exists>r. column_names_loop trim rand wrap kw dl kid cns ec s = Inr r"
proof (induction cns arbitrary: ec s)
  case Nil
  then show ?case by simp
next
  case (Cons cn cns)
  let ?n = "trim cn"
  from Cons.prems have n: "?n \<noteq> []" and fresh: "map_of ec ?n = None"
    by (auto simp: map_of_eq_None_iff)
  obtain ck s1 where r: "rand s (nat dl) = (ck, s1)" by (cases "rand s (nat dl)")
  from assms(1) obtain md s2 where w: "wrap kw s1 ck kid False = Inr (md, s2)"
    unfolding wrap_never_throws_def by (metis surj_pair)
  let ?ec1 = "ec @ [(?n, \<lparr>column_path = ?n, key = ck, key_metadata = md\<rparr>)]"
  have step: "column_names_loop trim rand wrap kw dl kid (cn # cns) ec s =
              column_names_loop trim rand wrap kw dl kid cns ?ec1 s2"
    using n fresh assms(2) r w by (simp add: column_names_loop_step)
  have "\<exists>r. column_names_loop trim rand wrap kw dl kid cns ?ec1 s2 = Inr r"
    using Cons.prems by (intro Cons.IH) auto
  with step show ?case by simp
qed

lemma key_to_columns_loop_succeeds:
  assumes "wrap_never_throws wrap" and "0 \<le> dl"
  shows "list_all (\<lambda>seg. length (SplitString seg (CHR '':'')) = 2 \<and> segment_key trim seg \<noteq> [] \<and>
                      [] \<notin> set (segment_columns trim seg))
           (filter (\<lambda>seg. seg \<noteq> []) (map trim ktcs)) \<Longrightarrow>
         distinct (concat (map (segment_columns trim) (filter (\<lambda>seg. seg \<noteq> []) (map trim ktcs)))) \<Longrightarrow>
         set (concat (map (segment_columns trim) (filter (\<lambda>seg. seg \<noteq> []) (map trim ktcs))))
           \<inter> fst ` set ec = {} \<Longrightarrow>
         \<exists>r. key_to_columns_loop trim rand wrap kw dl ktcs ec s = Inr r"
proof (induction ktcs arbitrary: ec s)
  case Nil
  then show ?case by simp
next
  case (Cons ktc ktcs)
  show ?case
  proof (cases "trim ktc = []")
    case True
    have "\<exists>r. key_to_columns_loop trim rand wrap kw dl ktcs ec s = Inr r"
      using Cons.prems True by (intro Cons.IH) simp_all
    with True show ?thesis by (simp add: key_to_columns_loop_skip)
  next
    case False
    let ?cur = "trim ktc"
    define rest_segs where "rest_segs = filter (\<lambda>seg. seg \<noteq> []) (map trim ktcs)"
    define rest_cols where "rest_cols = concat (map (segment_columns trim) rest_segs)"
    have segs: "filter (\<lambda>seg. seg \<noteq> []) (map trim (ktc # ktcs)) = ?cur # rest_segs"
      using False by (simp add: rest_segs_def)
    from Cons.prems(1) have len: "length (SplitString ?cur (CHR '':'')) = 2"
      and key: "segment_key trim ?cur \<noteq> []"
      and ne: "[] \<notin> set (segment_columns trim ?cur)"
      and rest_ok: "list_all (\<lambda>seg. length (SplitString seg (CHR '':'')) = 2 \<and>
                      segment_key trim seg \<noteq> [] \<and> [] \<notin> set (segment_columns trim seg)) rest_segs"
      unfolding segs by simp_all
    from len obtain k cs where parts: "SplitString ?cur (CHR '':'') = [k, cs]"
      by (auto simp: length_2_conv)
    define cur_cols where "cur_cols = map trim (SplitString (trim cs) (CHR '',''))"
    have sk: "segment_key trim ?cur = trim k" and sc: "segment_columns trim ?cur = cur_cols"
      by (simp_all add: segment_key_def segment_columns_def parts cur_cols_def)
    from key sk have kne: "trim k \<noteq> []" by simp
    have cols: "concat (map (segment_columns trim) (?cur # rest_segs)) = cur_cols @ rest_cols"
      by (simp add: sc rest_cols_def)
    from Cons.prems(2) have d: "distinct cur_cols" "distinct rest_cols"
      "set cur_cols \<inter> set rest_cols = {}"
      unfolding segs cols by simp_all
    from Cons.prems(3) have e: "set cur_cols \<inter> fst ` set ec = {}"
      "set rest_cols \<inter> fst ` set ec = {}"
      unfolding segs cols by auto
    have "\<exists>r. column_names_loop trim rand wrap kw dl (trim k)
                (SplitString (trim cs) (CHR '','')) ec s = Inr r"
      using assms
    proof (rule column_names_loop_succeeds)
      show "[] \<notin> set (map trim (SplitString (trim cs) (CHR '','')))"
        using ne sc by (simp add: cur_cols_def)
      show "distinct (map trim (SplitString (trim cs) (CHR '','')))"
        using d(1) by (simp add: cur_cols_def)
      show "set (map trim (SplitString (trim cs) (CHR '',''))) \<inter> fst ` set ec = {}"
        using e(1) by (simp add: cur_cols_def)
    qed
    then obtain ec1 s1 where inner: "column_names_loop trim rand wrap kw dl (trim k)
                (SplitString (trim cs) (CHR '','')) ec s = Inr (ec1, s1)"
      by force
    have "map fst ec1 = map fst ec @ cur_cols"
      using column_names_loop_Inr [OF inner] by (simp add: cur_cols_def)
    then have "set (map fst ec1) = set (map fst ec @ cur_cols)" by simp
    then have dom1: "fst ` set ec1 = fst ` set ec \<union> set cur_cols" by simp
    have "\<exists>r. key_to_columns_loop trim rand wrap kw dl ktcs ec1 s1 = Inr r"
    proof (rule Cons.IH)
      show "list_all (\<lambda>seg. length (SplitString seg (CHR '':'')) = 2 \<and>
                      segment_key trim seg \<noteq> [] \<and> [] \<notin> set (segment_columns trim seg))
              (filter (\<lambda>seg. seg \<noteq> []) (map trim ktcs))"
        using rest_ok by (simp add: rest_segs_def)
      show "distinct (concat (map (segment_columns trim)
              (filter (\<lambda>seg. seg \<noteq> []) (map trim ktcs))))"
        using d(2) by (simp add: rest_cols_def rest_segs_def)
      show "set (concat (map (segment_columns trim)
              (filter (\<lambda>seg. seg \<noteq> []) (map trim ktcs)))) \<inter> fst ` set ec1 = {}"
        using d(3) e(2) dom1 unfolding rest_cols_def rest_segs_def by blast
    qed
    moreover have "key_to_columns_loop trim rand wrap kw dl (ktc # ktcs) ec s =
        key_to_columns_loop trim rand wrap kw dl ktcs ec1 s1"
      using False parts kne inner by (simp add: key_to_columns_loop_step)
    ultimately show ?thesis by simp
  qed
qed

lemma segment_columns_not_Nil:
  "length (SplitString seg (CHR '':'')) = 2 \<Longrightarrow> segment_columns trim seg \<noteq> []"
  by (auto simp: segment_columns_def length_2_conv SplitString_not_Nil)

lemma GetColumnEncryptionProperties_accepted:
  assumes "column_keys_accepted trim ck" and "wrap_never_throws wrap" and "0 \<le> dl"
  shows "\<exists>ec s'. GetColumnEncryptionProperties trim rand wrap dl ck kw s = Inr (ec, s') \<and>
           map fst ec = concat (map (segment_columns trim) (nonempty_segments trim ck))"
proof -
  let ?segs = "filter (\<lambda>seg. seg \<noteq> []) (map trim (SplitString ck (CHR '';'')))"
  from assms(1) have ne: "?segs \<noteq> []"
    and ok: "list_all (\<lambda>seg. length (SplitString seg (CHR '':'')) = 2 \<and>
                segment_key trim seg \<noteq> [] \<and> [] \<notin> set (segment_columns trim seg)) ?segs"
    and d: "distinct (concat (map (segment_columns trim) ?segs))"
    by (simp_all add: column_keys_accepted_def nonempty_segments_def)
  have "\<exists>r. key_to_columns_loop trim rand wrap kw dl (SplitString ck (CHR '';'')) [] s = Inr r"
    using assms(2,3) ok d by (rule key_to_columns_loop_succeeds) simp
  then obtain ec s' where
    run: "key_to_columns_loop trim rand wrap kw dl (SplitString ck (CHR '';'')) [] s = Inr (ec, s')"
    by force
  have m: "map fst ec = concat (map (segment_columns trim) ?segs)"
    using key_to_columns_loop_Inr [OF run] by simp
  from ne obtain seg rest where sr: "?segs = seg # rest" by (cases ?segs) auto
  then have "seg \<in> set ?segs" by simp
  with ok have "length (SplitString seg (CHR '':'')) = 2" by (simp add: list_all_iff)
  then have "segment_columns trim seg \<noteq> []" by (rule segment_columns_not_Nil)
  with m sr have "ec \<noteq> []" by auto
  with run m show ?thesis
    by (simp add: GetColumnEncryptionProperties_def nonempty_segments_def)
qed

lemma GetColumnEncryptionProperties_no_segment:
  assumes "nonempty_segments trim ck = []"
  shows "GetColumnEncryptionProperties trim rand wrap dl ck kw s =
           Inl (ParquetException ''No column keys configured in column keys property.'')"
proof -
  from assms have "filter (\<lambda>seg. trim seg \<noteq> []) (SplitString ck (CHR '';'')) = []"
    by (simp add: nonempty_segments_def filter_map comp_def)
  then have "key_to_columns_loop trim rand wrap kw dl (SplitString ck (CHR '';'')) [] s =
        key_to_columns_loop trim rand wrap kw dl [] [] s"
    using key_to_columns_loop_filter [of trim rand wrap kw dl "SplitString ck (CHR '';'')" "[]" s]
    by simp
  then show ?thesis
    by (simp add: GetColumnEncryptionProperties_def)
qed

text \<open>The result for segments joined by \<open>;\<close> is the result for the non-empty segments
  alone, be it a map or an exception.\<close>

lemma GetColumnEncryptionProperties_filter:
  assumes "\<forall>seg \<in> set segs. CHR '';'' \<notin> set seg"
      and "\<exists>seg \<in> set segs. trim seg \<noteq> []"
  shows "GetColumnEncryptionProperties trim rand wrap dl (join_with (CHR '';'') segs) kw s =
         GetColumnEncryptionProperties trim rand wrap dl
           (join_with (CHR '';'') (filter (\<lambda>seg. trim seg \<noteq> []) segs)) kw s"
proof -
  let ?kept = "filter (\<lambda>seg. trim seg \<noteq> []) segs"
  from assms(2) have ne: "segs \<noteq> []" and kne: "?kept \<noteq> []"
    by (auto simp: filter_empty_conv)
  from assms(1) have "\<forall>seg \<in> set ?kept. CHR '';'' \<notin> set seg" by simp
  with kne have 1: "SplitString (join_with (CHR '';'') ?kept) (CHR '';'') = ?kept"
    by (rule SplitString_join_with)
  from ne assms(1) have 2: "SplitString (join_with (CHR '';'') segs) (CHR '';'') = segs"
    by (rule SplitString_join_with)
  show ?thesis
    unfolding GetColumnEncryptionProperties_def Let_def 1 2 key_to_columns_loop_filter ..
qed

text \<open>
  C9. The claim: for every \<open>column_keys\<close> string containing empty segments between \<open>;\<close>
  separators (a trailing \<open>;\<close>, a doubled \<open>;;\<close>), \<open>GetColumnEncryptionProperties\<close> silently
  skips the empty segments and parses the remaining key-to-columns mappings without
  raising an error.

  For every string this fails when no segment remains: on \<open>;;\<close> the function throws "No
  column keys configured in column keys property."
  (\<open>C9_only_empty_segments_counterexample\<close>). The theorem is the claim for the strings in
  which a mapping remains. A segment is empty when it is empty after trimming
  (\<open>nonempty_segments\<close> are the others, trimmed).

  \<^item> When the remaining segments are mappings \<open>key:col,col\<close> with a key name and column
    names that are not empty and not repeated, and there is one at least
    (\<open>column_keys_accepted\<close>), the function returns without exception, and the columns of
    the map it returns are the columns of the remaining segments in their order; this
    for a key wrapper that does not throw and a key length that is not negative.
  \<^item> When no segment remains, it throws the \<open>ParquetException\<close> "No column keys configured
    in column keys property."
  \<^item> In every case the empty segments change nothing: the result for segments (without
    \<open>;\<close> in them, one not empty) joined by \<open>;\<close> is the result for the non-empty ones
    joined by \<open>;\<close>.
\<close>

theorem C9_empty_segments_skipped:
  "(column_keys_accepted trim ck \<and> wrap_never_throws wrap \<and> 0 \<le> dl \<longrightarrow>
      (\<exists>ec s'. GetColumnEncryptionProperties trim rand wrap dl ck kw s = Inr (ec, s') \<and>
               map fst ec = concat (map (segment_columns trim) (nonempty_segments trim ck)))) \<and>
   (nonempty_segments trim ck = [] \<longrightarrow>
      GetColumnEncryptionProperties trim rand wrap dl ck kw s =
        Inl (ParquetException ''No column keys configured in column keys property.'')) \<and>
   ((\<forall>seg \<in> set segs. CHR '';'' \<notin> set seg) \<and> (\<exists>seg \<in> set segs. trim seg \<noteq> []) \<longrightarrow>
      GetColumnEncryptionProperties trim rand wrap dl (join_with (CHR '';'') segs) kw s =
      GetColumnEncryptionProperties trim rand wrap dl
        (join_with (CHR '';'') (filter (\<lambda>seg. trim seg \<noteq> []) segs)) kw s)"
  using GetColumnEncryptionProperties_accepted [of trim ck wrap dl rand kw s]
    GetColumnEncryptionProperties_no_segment [of trim ck rand wrap dl kw s]
    GetColumnEncryptionProperties_filter [of segs trim rand wrap dl kw s]
  by blast

theorem C9_empty_segments_skipped_witness:
  "(\<exists>ec s'. GetColumnEncryptionProperties TrimString sample_rand sample_wrap 2 ''k1:a;;k2:b, c; ''
               sample_key_wrapper () = Inr (ec, s') \<and>
            map fst ec = [''a'', ''b'', ''c'']) \<and>
   GetColumnEncryptionProperties TrimString sample_rand sample_wrap 2 '' ; '' sample_key_wrapper () =
     Inl (ParquetException ''No column keys configured in column keys property.'') \<and>
   GetColumnEncryptionProperties TrimString sample_rand sample_wrap 2 ''k1:a;;k2:b, c; ''
     sample_key_wrapper () =
   GetColumnEncryptionProperties TrimString sample_rand sample_wrap 2 ''k1:a;k2:b, c''
     sample_key_wrapper ()"
proof -
  have acc: "column_keys_accepted TrimString ''k1:a;;k2:b, c; ''" by code_simp
  have cols: "concat (map (segment_columns TrimString)
                (nonempty_segments TrimString ''k1:a;;k2:b, c; '')) = [''a'', ''b'', ''c'']"
    by code_simp
  have w: "wrap_never_throws sample_wrap"
    by (simp add: wrap_never_throws_def sample_wrap_def)
  have none: "nonempty_segments TrimString '' ; '' = []" by code_simp
  have a: "\<forall>seg \<in> set [''k1:a'', [], ''k2:b, c'', '' '']. CHR '';'' \<notin> set seg" by simp
  have b: "\<exists>seg \<in> set [''k1:a'', [], ''k2:b, c'', '' '']. TrimString seg \<noteq> []"
    by (simp add: TrimString_def is_blank_def)
  have j: "join_with (CHR '';'') [''k1:a'', [], ''k2:b, c'', '' ''] = ''k1:a;;k2:b, c; ''" by simp
  have f: "join_with (CHR '';'')
             (filter (\<lambda>seg. TrimString seg \<noteq> []) [''k1:a'', [], ''k2:b, c'', '' ''])
           = ''k1:a;k2:b, c''"
    by (simp add: TrimString_def is_blank_def)
  have 1: "\<exists>ec s'. GetColumnEncryptionProperties TrimString sample_rand sample_wrap 2
               ''k1:a;;k2:b, c; '' sample_key_wrapper () = Inr (ec, s') \<and>
            map fst ec = concat (map (segment_columns TrimString)
                (nonempty_segments TrimString ''k1:a;;k2:b, c; ''))"
  proof (rule C9_empty_segments_skipped [where trim = TrimString and ck = "''k1:a;;k2:b, c; ''"
        and wrap = sample_wrap and dl = 2 and rand = sample_rand and kw = sample_key_wrapper
        and s = "()" and segs = "[]", THEN conjunct1, THEN mp])
    from acc w show "column_keys_accepted TrimString ''k1:a;;k2:b, c; '' \<and>
        wrap_never_throws sample_wrap \<and> (0::int) \<le> 2"
      by simp
  qed
  have 2: "GetColumnEncryptionProperties TrimString sample_rand sample_wrap 2 '' ; ''
             sample_key_wrapper () =
           Inl (ParquetException ''No column keys configured in column keys property.'')"
    using C9_empty_segments_skipped [where trim = TrimString and ck = "'' ; ''"
        and wrap = sample_wrap and dl = 2 and rand = sample_rand and kw = sample_key_wrapper
        and s = "()" and segs = "[]", THEN conjunct2, THEN conjunct1, THEN mp, OF none] .
  have 3: "GetColumnEncryptionProperties TrimString sample_rand sample_wrap 2
             (join_with (CHR '';'') [''k1:a'', [], ''k2:b, c'', '' '']) sample_key_wrapper () =
           GetColumnEncryptionProperties TrimString sample_rand sample_wrap 2
             (join_with (CHR '';'')
                (filter (\<lambda>seg. TrimString seg \<noteq> []) [''k1:a'', [], ''k2:b, c'', '' '']))
             sample_key_wrapper ()"
  proof (rule C9_empty_segments_skipped [where trim = TrimString and ck = "[]"
        and wrap = sample_wrap and dl = 2 and rand = sample_rand and kw = sample_key_wrapper
        and s = "()" and segs = "[''k1:a'', [], ''k2:b, c'', '' '']",
        THEN conjunct2, THEN conjunct2, THEN mp])
    from a b show "(\<forall>seg \<in> set [''k1:a'', [], ''k2:b, c'', '' '']. CHR '';'' \<notin> set seg) \<and>
        (\<exists>seg \<in> set [''k1:a'', [], ''k2:b, c'', '' '']. TrimString seg \<noteq> [])"
      by blast
  qed
  from 1 2 3 show ?thesis unfolding cols j f by blast
qed

text \<open>The claim for every string with empty segments fails: with empty segments only,
  an error is raised.\<close>

theorem C9_only_empty_segments_counterexample:
  "GetColumnEncryptionProperties TrimString sample_rand sample_wrap 2 '';;'' sample_key_wrapper () =
     Inl (ParquetException ''No column keys configured in column keys property.'') \<and>
   GetColumnEncryptionProperties TrimString sample_rand sample_wrap 2 '';'' sample_key_wrapper () =
     Inl (ParquetException ''No column keys configured in column keys property.'')"
  by code_simp


subsection \<open>Key lengths\<close>

text \<open>
  C7. The claim: key lengths of 16, 24 or 32 bytes (128, 192, 256 bits) are the only
  accepted values: \<open>GetFileEncryptionProperties\<close> raises a configuration error for any
  other \<open>data_key_length_bits\<close>, and the internal file encryptor raises a fatal error when
  asked for an AES encryptor with any other key length.

  The file encryptor does not test the \<open>size_t key_size\<close> it is given but
  \<open>int key_len = static_cast<int>(key_size)\<close>, its low 32 bits: a key size of
  \<open>2^32 + 16\<close> is another key length and is accepted
  (\<open>C7_narrowed_key_size_counterexample\<close>). The theorem is the claim with the key length of
  the encryptor read as that \<open>int\<close>:

  \<^item> for a \<open>data_key_length_bits\<close> other than 128, 192, 256,
    \<open>GetFileEncryptionProperties\<close> throws, and what it throws is the \<open>ParquetException\<close>
    "Wrong data key length" once the tests before it have passed and the
    \<open>FileKeyWrapper\<close> has been constructed;
  \<^item> for 128, 192 or 256 and uniform encryption it returns the properties with a footer
    key of that many bits, when the key wrapper returns;
  \<^item> \<open>GetMetaAesEncryptor\<close> and \<open>GetDataAesEncryptor\<close> throw the \<open>ParquetException\<close>
    "encryption key must be 16, 24 or 32 bytes in length" when \<open>key_len\<close> is none of 16,
    24, 32, and return an encryptor when it is one of them.
\<close>

theorem C7_key_lengths:
  "(data_key_length_bits cfg \<notin> {128, 192, 256} \<longrightarrow>
      isl (GetFileEncryptionProperties trim rand new_key_wrapper wrap conn (Some cfg) s) \<and>
      ((uniform_encryption cfg \<longleftrightarrow> column_keys cfg = []) \<and> internal_key_material cfg \<and>
       new_key_wrapper
         \<lparr>kms_connection_config = conn,
          cache_entry_lifetime_seconds = cache_lifetime_seconds cfg,
          wrapper_double_wrapping = double_wrapping cfg\<rparr> s = Inr s0 \<longrightarrow>
         GetFileEncryptionProperties trim rand new_key_wrapper wrap conn (Some cfg) s =
           Inl (ParquetException (''Wrong data key length : '' @
                                  string_of_int (sint (data_key_length_bits cfg)))))) \<and>
   (data_key_length_bits cfg \<in> {128, 192, 256} \<and>
    uniform_encryption cfg \<and> column_keys cfg = [] \<and> internal_key_material cfg \<and>
    kw = \<lparr>kms_connection_config = conn,
          cache_entry_lifetime_seconds = cache_lifetime_seconds cfg,
          wrapper_double_wrapping = double_wrapping cfg\<rparr> \<and>
    new_key_wrapper kw s = Inr s0 \<and>
    rand s0 (unat (data_key_length_bits cfg) div 8) = (footer_key_bytes, s1) \<and>
    wrap kw s1 footer_key_bytes (footer_key cfg) True = Inr (md, s2) \<longrightarrow>
      GetFileEncryptionProperties trim rand new_key_wrapper wrap conn (Some cfg) s =
        Inr (Some \<lparr>props_footer_key = footer_key_bytes, props_footer_key_metadata = md,
                   props_algorithm = encryption_algorithm cfg,
                   props_encrypted_columns = None, props_plaintext_footer = False\<rparr>, s2)) \<and>
   ((ucast key_size :: 32 word) \<notin> {16, 24, 32} \<longrightarrow>
      GetMetaAesEncryptor fe alg key_size =
        Inl (ParquetException ''encryption key must be 16, 24 or 32 bytes in length'') \<and>
      GetDataAesEncryptor fe alg key_size =
        Inl (ParquetException ''encryption key must be 16, 24 or 32 bytes in length'')) \<and>
   ((ucast key_size :: 32 word) \<in> {16, 24, 32} \<longrightarrow>
      \<not> isl (GetMetaAesEncryptor fe alg key_size) \<and>
      \<not> isl (GetDataAesEncryptor fe alg key_size))"
proof (intro conjI impI)
  assume "data_key_length_bits cfg \<notin> {128, 192, 256}"
  then have v: "\<not> ValidateKeyLength (data_key_length_bits cfg)"
    by (simp add: ValidateKeyLength_def)
  show "isl (GetFileEncryptionProperties trim rand new_key_wrapper wrap conn (Some cfg) s)"
    using v by (simp add: GetFileEncryptionProperties_def Let_def split: sum.split)
  assume "(uniform_encryption cfg \<longleftrightarrow> column_keys cfg = []) \<and> internal_key_material cfg \<and>
       new_key_wrapper
         \<lparr>kms_connection_config = conn,
          cache_entry_lifetime_seconds = cache_lifetime_seconds cfg,
          wrapper_double_wrapping = double_wrapping cfg\<rparr> s = Inr s0"
  with v show "GetFileEncryptionProperties trim rand new_key_wrapper wrap conn (Some cfg) s =
           Inl (ParquetException (''Wrong data key length : '' @
                                  string_of_int (sint (data_key_length_bits cfg))))"
    by (auto simp: GetFileEncryptionProperties_def Let_def)
next
  assume h: "data_key_length_bits cfg \<in> {128, 192, 256} \<and>
    uniform_encryption cfg \<and> column_keys cfg = [] \<and> internal_key_material cfg \<and>
    kw = \<lparr>kms_connection_config = conn,
          cache_entry_lifetime_seconds = cache_lifetime_seconds cfg,
          wrapper_double_wrapping = double_wrapping cfg\<rparr> \<and>
    new_key_wrapper kw s = Inr s0 \<and>
    rand s0 (unat (data_key_length_bits cfg) div 8) = (footer_key_bytes, s1) \<and>
    wrap kw s1 footer_key_bytes (footer_key cfg) True = Inr (md, s2)"
  then have v: "ValidateKeyLength (data_key_length_bits cfg)"
    by (auto simp: ValidateKeyLength_def)
  from h have "data_key_length_bits cfg = 128 \<or> data_key_length_bits cfg = 192 \<or>
      data_key_length_bits cfg = 256"
    by auto
  then have n: "sint (data_key_length_bits cfg) sdiv 8 = int (unat (data_key_length_bits cfg) div 8)"
    by auto
  show "GetFileEncryptionProperties trim rand new_key_wrapper wrap conn (Some cfg) s =
        Inr (Some \<lparr>props_footer_key = footer_key_bytes, props_footer_key_metadata = md,
                   props_algorithm = encryption_algorithm cfg,
                   props_encrypted_columns = None, props_plaintext_footer = False\<rparr>, s2)"
  proof -
    from h have c: "new_key_wrapper
         \<lparr>kms_connection_config = conn,
          cache_entry_lifetime_seconds = cache_lifetime_seconds cfg,
          wrapper_double_wrapping = double_wrapping cfg\<rparr> s = Inr s0"
      and w: "wrap
         \<lparr>kms_connection_config = conn,
          cache_entry_lifetime_seconds = cache_lifetime_seconds cfg,
          wrapper_double_wrapping = double_wrapping cfg\<rparr> s1 footer_key_bytes (footer_key cfg) True =
           Inr (md, s2)"
      and r: "rand s0 (unat (data_key_length_bits cfg) div 8) = (footer_key_bytes, s1)"
      and u: "uniform_encryption cfg" "column_keys cfg = []" "internal_key_material cfg"
      by auto
    show ?thesis
      by (simp add: GetFileEncryptionProperties_def Let_def n c w r u v)
  qed
next
  assume "(ucast key_size :: 32 word) \<notin> {16, 24, 32}"
  then show "GetMetaAesEncryptor fe alg key_size =
        Inl (ParquetException ''encryption key must be 16, 24 or 32 bytes in length'')"
    and "GetDataAesEncryptor fe alg key_size =
        Inl (ParquetException ''encryption key must be 16, 24 or 32 bytes in length'')"
    by (simp_all add: GetMetaAesEncryptor_def GetDataAesEncryptor_def Let_def)
next
  assume "(ucast key_size :: 32 word) \<in> {16, 24, 32}"
  then show "\<not> isl (GetMetaAesEncryptor fe alg key_size)"
    and "\<not> isl (GetDataAesEncryptor fe alg key_size)"
    by (auto simp: GetMetaAesEncryptor_def GetDataAesEncryptor_def Let_def split: option.splits)
qed

theorem C7_key_lengths_witness:
  "GetFileEncryptionProperties TrimString sample_rand sample_new_key_wrapper sample_wrap ()
       (Some (sample_config [] True 120)) () =
     Inl (ParquetException ''Wrong data key length : 120'') \<and>
   GetFileEncryptionProperties TrimString sample_rand sample_new_key_wrapper sample_wrap ()
       (Some (sample_config [] True 192)) () =
     Inr (Some \<lparr>props_footer_key = replicate 24 (CHR ''K''),
                props_footer_key_metadata = ''kf/'' @ replicate 24 (CHR ''K''),
                props_algorithm = AES_GCM_V1, props_encrypted_columns = None,
                props_plaintext_footer = False\<rparr>, ()) \<and>
   GetMetaAesEncryptor no_encryptors AES_GCM_V1 15 =
     Inl (ParquetException ''encryption key must be 16, 24 or 32 bytes in length'') \<and>
   GetDataAesEncryptor no_encryptors AES_GCM_V1 33 =
     Inl (ParquetException ''encryption key must be 16, 24 or 32 bytes in length'') \<and>
   \<not> isl (GetMetaAesEncryptor no_encryptors AES_GCM_V1 24) \<and>
   \<not> isl (GetDataAesEncryptor no_encryptors AES_GCM_V1 24)"
proof -
  let ?kw = "\<lparr>kms_connection_config = (), cache_entry_lifetime_seconds = 600,
              wrapper_double_wrapping = True\<rparr>"
  have s: "string_of_int (sint (120 :: 32 word)) = ''120''" by code_simp
  have d: "data_key_length_bits (sample_config [] True 120) = 120"
    by (simp add: sample_config_def)
  have 1: "GetFileEncryptionProperties TrimString sample_rand sample_new_key_wrapper sample_wrap ()
       (Some (sample_config [] True 120)) () =
     Inl (ParquetException (''Wrong data key length : '' @
            string_of_int (sint (data_key_length_bits (sample_config [] True 120)))))"
  proof (rule C7_key_lengths [where cfg = "sample_config [] True 120" and s = "()" and ?s0.0 = "()"
        and conn = "()" and key_size = 15,
        THEN conjunct1, THEN mp, THEN conjunct2, THEN mp])
    show "data_key_length_bits (sample_config [] True 120) \<notin> {128, 192, 256}"
      by (simp add: sample_config_def)
    show "(uniform_encryption (sample_config [] True 120) \<longleftrightarrow>
            column_keys (sample_config [] True 120) = []) \<and>
          internal_key_material (sample_config [] True 120) \<and>
          sample_new_key_wrapper
            \<lparr>kms_connection_config = (),
             cache_entry_lifetime_seconds = cache_lifetime_seconds (sample_config [] True 120),
             wrapper_double_wrapping = double_wrapping (sample_config [] True 120)\<rparr> () = Inr ()"
      by (simp add: sample_config_def sample_new_key_wrapper_def)
  qed
  have 2: "GetFileEncryptionProperties TrimString sample_rand sample_new_key_wrapper sample_wrap ()
       (Some (sample_config [] True 192)) () =
     Inr (Some \<lparr>props_footer_key = replicate 24 (CHR ''K''),
                props_footer_key_metadata = ''kf/'' @ replicate 24 (CHR ''K''),
                props_algorithm = encryption_algorithm (sample_config [] True 192),
                props_encrypted_columns = None,
                props_plaintext_footer = False\<rparr>, ())"
  proof (rule C7_key_lengths [where cfg = "sample_config [] True 192" and s = "()" and ?s0.0 = "()"
        and ?s1.0 = "()" and conn = "()" and kw = ?kw and key_size = 15,
        THEN conjunct2, THEN conjunct1, THEN mp])
    show "data_key_length_bits (sample_config [] True 192) \<in> {128, 192, 256} \<and>
      uniform_encryption (sample_config [] True 192) \<and>
      column_keys (sample_config [] True 192) = [] \<and>
      internal_key_material (sample_config [] True 192) \<and>
      ?kw = \<lparr>kms_connection_config = (),
          cache_entry_lifetime_seconds = cache_lifetime_seconds (sample_config [] True 192),
          wrapper_double_wrapping = double_wrapping (sample_config [] True 192)\<rparr> \<and>
      sample_new_key_wrapper ?kw () = Inr () \<and>
      sample_rand () (unat (data_key_length_bits (sample_config [] True 192)) div 8) =
        (replicate 24 (CHR ''K''), ()) \<and>
      sample_wrap ?kw () (replicate 24 (CHR ''K'')) (footer_key (sample_config [] True 192)) True =
        Inr (''kf/'' @ replicate 24 (CHR ''K''), ())"
      by (simp add: sample_config_def sample_new_key_wrapper_def sample_rand_def sample_wrap_def)
  qed
  have c15: "(ucast (15 :: 64 word) :: 32 word) \<notin> {16, 24, 32}" by simp
  have c33: "(ucast (33 :: 64 word) :: 32 word) \<notin> {16, 24, 32}" by simp
  have c24: "(ucast (24 :: 64 word) :: 32 word) \<in> {16, 24, 32}" by simp
  have 3: "GetMetaAesEncryptor no_encryptors AES_GCM_V1 15 =
     Inl (ParquetException ''encryption key must be 16, 24 or 32 bytes in length'')"
    using C7_key_lengths [where cfg = "sample_config [] True 120" and s = "()" and conn = "()"
      and fe = no_encryptors and alg = AES_GCM_V1 and key_size = 15,
      THEN conjunct2, THEN conjunct2, THEN conjunct1, THEN mp, OF c15] by blast
  have 4: "GetDataAesEncryptor no_encryptors AES_GCM_V1 33 =
     Inl (ParquetException ''encryption key must be 16, 24 or 32 bytes in length'')"
    using C7_key_lengths [where cfg = "sample_config [] True 120" and s = "()" and conn = "()"
      and fe = no_encryptors and alg = AES_GCM_V1 and key_size = 33,
      THEN conjunct2, THEN conjunct2, THEN conjunct1, THEN mp, OF c33] by blast
  have 5: "\<not> isl (GetMetaAesEncryptor no_encryptors AES_GCM_V1 24) \<and>
           \<not> isl (GetDataAesEncryptor no_encryptors AES_GCM_V1 24)"
    using C7_key_lengths [where cfg = "sample_config [] True 120" and s = "()" and conn = "()"
      and fe = no_encryptors and alg = AES_GCM_V1 and key_size = 24,
      THEN conjunct2, THEN conjunct2, THEN conjunct2, THEN mp, OF c24] .
  from 1 2 3 4 5 show ?thesis
    unfolding d s by (simp add: sample_config_def)
qed

text \<open>The claim as worded fails in the file encryptor: \<open>2^32 + 16\<close> is a key length other
  than 16, 24 and 32, and both functions return an encryptor for 16 bytes.\<close>

theorem C7_narrowed_key_size_counterexample:
  "GetMetaAesEncryptor no_encryptors AES_GCM_V1 4294967312 =
     Inr (\<lparr>aes_algorithm = AES_GCM_V1, aes_key_len = 16, aes_metadata = True\<rparr>,
          no_encryptors\<lparr>meta_encryptor_128 :=
            Some \<lparr>aes_algorithm = AES_GCM_V1, aes_key_len = 16, aes_metadata = True\<rparr>\<rparr>) \<and>
   GetDataAesEncryptor no_encryptors AES_GCM_V1 4294967312 =
     Inr (\<lparr>aes_algorithm = AES_GCM_V1, aes_key_len = 16, aes_metadata = False\<rparr>,
          no_encryptors\<lparr>data_encryptor_128 :=
            Some \<lparr>aes_algorithm = AES_GCM_V1, aes_key_len = 16, aes_metadata = False\<rparr>\<rparr>)"
  by (simp add: GetMetaAesEncryptor_def GetDataAesEncryptor_def no_encryptors_def Let_def)


subsection \<open>Writing a column chunk\<close>

text \<open>With a plaintext footer, an encrypted column gets a redacted \<open>meta_data\<close>: the
  metadata of the column with the flags of \<open>statistics\<close> and \<open>encoding_stats\<close> cleared, so
  that Thrift writes neither.\<close>

lemma WriteTo_plaintext_footer_redacted:
  assumes "encrypt_md = Some e" and "isEncrypted e"
    and "encryption = Some ep"
    and "Encrypt ext ep True (SerializeColumnMetaData ext (column_metadata b)) = Inr ct"
  shows "\<exists>b' out. WriteTo ext b sink encryption encrypt_md None = Inr (b', out) \<and>
           isset_meta_data (column_chunk b') \<and>
           meta_data (column_chunk b') =
             (column_metadata b)\<lparr>isset_statistics := False, isset_encoding_stats := False\<rparr> \<and>
           isset_encrypted_column_metadata (column_chunk b') \<and>
           encrypted_column_metadata (column_chunk b') = ct"
  using assms by (simp add: WriteTo_def Let_def)

text \<open>
  C8. The claim: when a column chunk is serialised with an \<open>encrypted_column_metadata\<close>
  blob, the plaintext \<open>meta_data\<close> field is omitted entirely if the footer is encrypted,
  and a redacted \<open>meta_data\<close> (statistics and encoding_stats stripped) is populated if the
  footer is plaintext.

  The second half holds (\<open>WriteTo_plaintext_footer_redacted\<close>). The first does not: in
  the branch for an encrypted footer, under the comment "don't set meta_data", the code
  sets \<open>__isset.meta_data = true\<close>. The theorem states what \<open>WriteTo\<close> leaves for a column
  encrypted with its own key in a file with an encrypted footer: the blob is set, and
  \<open>meta_data\<close> is flagged as present with the value the chunk had before (never
  populated), so the Thrift writer emits the field.
\<close>

theorem C8_encrypted_footer_meta_data_flagged:
  assumes "encrypt_md = Some e" and "isEncrypted e" and "\<not> isEncryptedWithFooterKey e"
    and "footer_encryption = Some fe"
    and "encryption = Some ep"
    and "Encrypt ext ep True (SerializeColumnMetaData ext (column_metadata b)) = Inr ct"
  shows "\<exists>b' out. WriteTo ext b sink encryption encrypt_md footer_encryption = Inr (b', out) \<and>
           isset_encrypted_column_metadata (column_chunk b') \<and>
           encrypted_column_metadata (column_chunk b') = ct \<and>
           isset_meta_data (column_chunk b') \<and>
           meta_data (column_chunk b') = meta_data (column_chunk b) \<and>
           out = sink @ SerializeColumnChunk ext (column_chunk b')"
  using assms by (simp add: WriteTo_def Let_def)

theorem C8_encrypted_footer_meta_data_flagged_witness:
  "\<exists>b' out.
     WriteTo sample_externals sample_builder []
       (Some \<lparr>enc_algorithm = AES_GCM_V1, enc_key = ''K'', enc_file_aad = [], enc_aad = []\<rparr>)
       (Some \<lparr>isEncrypted = True, isEncryptedWithFooterKey = False, getKeyMetaData = ''kmeta-a''\<rparr>)
       (Some \<lparr>enc_algorithm = AES_GCM_V1, enc_key = ''F'', enc_file_aad = [], enc_aad = []\<rparr>) =
       Inr (b', out) \<and>
     isset_meta_data (column_chunk b') \<and>
     meta_data (column_chunk b') = unset_column_metadata \<and>
     encrypted_column_metadata (column_chunk b') = ''Kmin=1,max=3'' \<and>
     out = ''MKmin=1,max=3''"
proof -
  let ?ep = "\<lparr>enc_algorithm = AES_GCM_V1, enc_key = ''K'', enc_file_aad = [], enc_aad = []\<rparr>"
  let ?e = "\<lparr>isEncrypted = True, isEncryptedWithFooterKey = False, getKeyMetaData = ''kmeta-a''\<rparr>"
  let ?fe = "\<lparr>enc_algorithm = AES_GCM_V1, enc_key = ''F'', enc_file_aad = [], enc_aad = []\<rparr>"
  have enc: "Encrypt sample_externals ?ep True
               (SerializeColumnMetaData sample_externals (column_metadata sample_builder)) =
             Inr ''Kmin=1,max=3''"
    by (simp add: sample_externals_def sample_builder_def sample_column_metadata_def)
  have e: "isEncrypted ?e" "\<not> isEncryptedWithFooterKey ?e" by simp_all
  from C8_encrypted_footer_meta_data_flagged [OF refl e refl refl enc, of "[]"]
  obtain b' out where
    r: "WriteTo sample_externals sample_builder [] (Some ?ep) (Some ?e) (Some ?fe) = Inr (b', out)"
    and m: "isset_meta_data (column_chunk b')"
      "meta_data (column_chunk b') = meta_data (column_chunk sample_builder)"
      "encrypted_column_metadata (column_chunk b') = ''Kmin=1,max=3''"
      "out = [] @ SerializeColumnChunk sample_externals (column_chunk b')"
    by blast
  from m have "out = ''MKmin=1,max=3''"
    by (simp add: sample_externals_def)
  moreover from m have "meta_data (column_chunk b') = unset_column_metadata"
    by (simp add: sample_builder_def unset_column_chunk_def)
  ultimately show ?thesis using r m by blast
qed

subsection \<open>The signature of a plaintext footer\<close>

text \<open>\<open>memcmp\<close> over ranges inside both buffers compares the two slices.\<close>

lemma memcmp_eq_take_drop:
  assumes "off_a + n \<le> length a" and "off_b + n \<le> length b"
  shows "memcmp_eq a off_a b off_b n \<longleftrightarrow> take n (drop off_a a) = take n (drop off_b b)"
proof -
  have "take n (drop off_a a) = take n (drop off_b b) \<longleftrightarrow>
        (\<forall>i<n. take n (drop off_a a) ! i = take n (drop off_b b) ! i)"
    using assms by (auto simp: list_eq_iff_nth_eq)
  also have "\<dots> \<longleftrightarrow> (\<forall>i<n. a ! (off_a + i) = b ! (off_b + i))"
    using assms by auto
  finally show ?thesis
    by (auto simp: memcmp_eq_def list_all_iff)
qed

lemma verify_tag:
  assumes "length tail = 28"
    and "SignedFooterEncrypt ext (SerializeFileMetaData ext fmd) (enc_key enc) (enc_aad enc)
           (take 12 tail) = Inr ct"
    and "16 \<le> length ct"
  shows "verify ext fmd (Some enc) tail tail_len = Inr (drop (length ct - 16) ct = drop 12 tail)"
proof -
  have "memcmp_eq ct (length ct - 16) tail 12 16 \<longleftrightarrow>
        take 16 (drop (length ct - 16) ct) = take 16 (drop 12 tail)"
    using assms by (intro memcmp_eq_take_drop) simp_all
  then have "memcmp_eq ct (length ct - 16) tail 12 16 \<longleftrightarrow>
        drop (length ct - 16) ct = drop 12 tail"
    using assms by simp
  with assms show ?thesis by (simp add: verify_def Let_def)
qed

text \<open>The read from the end of the file is complete, so the magic decides the branch.\<close>

lemma footer_buffer_length:
  "int (length (footer_buffer_of source)) = footer_read_size_of source"
  by (simp add: footer_buffer_of_def footer_read_size_of_def ReadAt_def DEFAULT_FOOTER_READ_SIZE_def
      min_def)

lemma ParseMetaData_PAR1:
  "8 \<le> length source \<Longrightarrow> footer_magic_of source = PARQUET_MAGIC \<Longrightarrow>
     ParseMetaData ext source props s =
       ParseMetaData_plaintext_footer ext source props (footer_read_size_of source)
         (footer_buffer_of source) s"
  by (simp add: ParseMetaData_def Let_def footer_buffer_length FOOTER_SIZE_def)


lemma plaintext_footer_trailer:
  assumes "read_footer_metadata source frs fb = Inr (len, buf)"
    and "DeserializeFileMetaData ext None buf = Inr (fm, n)"
    and "isset_encryption_algorithm fm"
    and "file_decryption props = Some fd"
    and "checkFooterIntegrity fd"
    and "len - n \<noteq> 28"
  shows "isl (ParseMetaData_plaintext_footer ext source props frs fb s)"
    and "\<not> isl (file_aad_of fd (fmd_encryption_algorithm fm)) \<Longrightarrow>
         ParseMetaData_plaintext_footer ext source props frs fb s =
           Inl (ParquetException ''Invalid parquet file. Cannot verify plaintextmode footer.'')"
  using assms
  by (auto simp: ParseMetaData_plaintext_footer_def FileMetaData_Make_def Let_def
      split: sum.splits)

text \<open>
  C4. The claim: \<open>FileMetaData::verify\<close> on a signed plaintext footer returns true if and
  only if re-serialising the parsed footer, encrypting it with the 12-byte nonce of the
  28-byte signature trailer and comparing only the last 16 bytes of the result with the
  stored 16-byte tag matches; and the reader rejects the file when the trailer after the
  Thrift block is not exactly 28 bytes.

  The first half holds as stated. The second half holds only under the test
  \<open>checkFooterIntegrity()\<close> of the decryption properties, which guards the whole
  verification in \<open>ParseMetaData\<close>; without it a trailer of any length is accepted
  (\<open>C4_unchecked_trailer_counterexample\<close>). The theorem is the claim with that
  condition: for a file that ends with the magic \<open>PAR1\<close>, whose footer declares an
  encryption algorithm and leaves a trailer of \<open>len - n\<close> bytes after the \<open>n\<close> bytes of
  Thrift, \<open>ParseMetaData\<close> throws when the integrity check is requested and the trailer
  is not 28 bytes (the exception is "Cannot verify plaintext mode footer" once the tests
  on algorithm and AAD prefix have passed).
\<close>

theorem C4_signed_footer:
  "(length tail = 28 \<and>
    SignedFooterEncrypt ext (SerializeFileMetaData ext fmd) (enc_key enc) (enc_aad enc)
      (take 12 tail) = Inr ct \<and>
    16 \<le> length ct \<longrightarrow>
      verify ext fmd (Some enc) tail tail_len =
        Inr (drop (length ct - 16) ct = drop 12 tail)) \<and>
   (8 \<le> length source \<and> footer_magic_of source = PARQUET_MAGIC \<and>
    read_footer_metadata source (footer_read_size_of source) (footer_buffer_of source) =
      Inr (len, buf) \<and>
    DeserializeFileMetaData ext None buf = Inr (fm, n) \<and>
    isset_encryption_algorithm fm \<and>
    file_decryption props = Some fd \<and> checkFooterIntegrity fd \<and>
    len - n \<noteq> 28 \<longrightarrow>
      isl (ParseMetaData ext source props s) \<and>
      (\<not> isl (file_aad_of fd (fmd_encryption_algorithm fm)) \<longrightarrow>
         ParseMetaData ext source props s =
           Inl (ParquetException ''Invalid parquet file. Cannot verify plaintextmode footer.'')))"
  using verify_tag [of tail ext fmd enc ct tail_len]
    plaintext_footer_trailer [of source "footer_read_size_of source" "footer_buffer_of source"
      len buf ext fm n props fd s]
    ParseMetaData_PAR1 [of source ext props s]
  by auto

theorem C4_signed_footer_witness:
  "verify sample_externals (sample_file_metadata ''abc'' True)
     (Some \<lparr>enc_algorithm = AES_GCM_V1, enc_key = ''0123456789abcdef'', enc_file_aad = ''unique'',
            enc_aad = ''unique/footer''\<rparr>)
     (''nnnnnnnnnnnn'' @ ''0123456789abcdef'') 28 = Inr True \<and>
   verify sample_externals (sample_file_metadata ''abc'' True)
     (Some \<lparr>enc_algorithm = AES_GCM_V1, enc_key = ''0123456789abcdef'', enc_file_aad = ''unique'',
            enc_aad = ''unique/footer''\<rparr>)
     (''nnnnnnnnnnnn'' @ ''0123456789abcdeX'') 28 = Inr False \<and>
   ParseMetaData sample_externals short_trailer_file
     (sample_reader_properties ''0123456789abcdef'' True None) (0::nat) =
     Inl (ParquetException ''Invalid parquet file. Cannot verify plaintextmode footer.'')"
proof -
  let ?enc = "\<lparr>enc_algorithm = AES_GCM_V1, enc_key = ''0123456789abcdef'',
               enc_file_aad = ''unique'', enc_aad = ''unique/footer''\<rparr>"
  let ?fmd = "sample_file_metadata ''abc'' True"
  let ?ct = "''nnnnnnnnnnnn'' @ ''abc'' @ ''0123456789abcdef''"
  let ?props = "sample_reader_properties ''0123456789abcdef'' True None :: nat ReaderProperties"
  have sfe: "\<And>tag. SignedFooterEncrypt sample_externals (SerializeFileMetaData sample_externals ?fmd)
          (enc_key ?enc) (enc_aad ?enc) (take 12 (''nnnnnnnnnnnn'' @ tag)) = Inr ?ct"
    by (simp add: sample_externals_def sample_file_metadata_def)
  have l16: "16 \<le> length ?ct" by simp
  have v1: "verify sample_externals ?fmd (Some ?enc) (''nnnnnnnnnnnn'' @ ''0123456789abcdef'') 28 =
        Inr (drop (length ?ct - 16) ?ct = drop 12 (''nnnnnnnnnnnn'' @ ''0123456789abcdef''))"
  proof (rule C4_signed_footer [where source = "[]" and s = "0::nat", THEN conjunct1, THEN mp])
    have "length (''nnnnnnnnnnnn'' @ ''0123456789abcdef'') = 28" by simp
    with sfe [of "''0123456789abcdef''"] l16
    show "length (''nnnnnnnnnnnn'' @ ''0123456789abcdef'') = 28 \<and>
      SignedFooterEncrypt sample_externals (SerializeFileMetaData sample_externals ?fmd)
        (enc_key ?enc) (enc_aad ?enc) (take 12 (''nnnnnnnnnnnn'' @ ''0123456789abcdef'')) = Inr ?ct \<and>
      16 \<le> length ?ct"
      by blast
  qed
  have v2: "verify sample_externals ?fmd (Some ?enc) (''nnnnnnnnnnnn'' @ ''0123456789abcdeX'') 28 =
        Inr (drop (length ?ct - 16) ?ct = drop 12 (''nnnnnnnnnnnn'' @ ''0123456789abcdeX''))"
  proof (rule C4_signed_footer [where source = "[]" and s = "0::nat", THEN conjunct1, THEN mp])
    have "length (''nnnnnnnnnnnn'' @ ''0123456789abcdeX'') = 28" by simp
    with sfe [of "''0123456789abcdeX''"] l16
    show "length (''nnnnnnnnnnnn'' @ ''0123456789abcdeX'') = 28 \<and>
      SignedFooterEncrypt sample_externals (SerializeFileMetaData sample_externals ?fmd)
        (enc_key ?enc) (enc_aad ?enc) (take 12 (''nnnnnnnnnnnn'' @ ''0123456789abcdeX'')) = Inr ?ct \<and>
      16 \<le> length ?ct"
      by blast
  qed
  have m: "footer_magic_of short_trailer_file = PARQUET_MAGIC" by code_simp
  have r: "read_footer_metadata short_trailer_file (footer_read_size_of short_trailer_file)
     (footer_buffer_of short_trailer_file) = Inr (8, ''abcxxxxx'')" by code_simp
  have d: "DeserializeFileMetaData sample_externals None ''abcxxxxx'' = Inr (?fmd, 3)"
    by (simp add: sample_externals_def)
  have i: "isset_encryption_algorithm ?fmd" by (simp add: sample_file_metadata_def)
  have f: "file_decryption ?props = Some (sample_decryption ''0123456789abcdef'' True)"
    by (simp add: sample_reader_properties_def)
  have c: "checkFooterIntegrity (sample_decryption ''0123456789abcdef'' True :: nat FileDecryptionProperties)"
    by (simp add: sample_decryption_def)
  have a: "\<not> isl (file_aad_of (sample_decryption ''0123456789abcdef'' True :: nat FileDecryptionProperties)
                    (fmd_encryption_algorithm ?fmd))"
    by (simp add: file_aad_of_def sample_decryption_def sample_file_metadata_def
        sample_algorithm_def Let_def)
  have l: "8 \<le> length short_trailer_file" by (simp add: short_trailer_file_def)
  have n: "(8 :: 32 word) - 3 \<noteq> 28" by simp
  have p: "ParseMetaData sample_externals short_trailer_file ?props (0::nat) =
     Inl (ParquetException ''Invalid parquet file. Cannot verify plaintextmode footer.'')"
    using C4_signed_footer [where source = short_trailer_file and len = 8 and buf = "''abcxxxxx''"
                  and ext = sample_externals and fm = ?fmd and n = 3 and props = ?props
                  and fd = "sample_decryption ''0123456789abcdef'' True" and s = 0,
                  THEN conjunct2]
      l m r d i f c n a
    by blast
  from v1 v2 p show ?thesis by simp
qed

text \<open>The second half of C4 as the claim has it, without the condition, fails: a file
  with a plaintext footer that declares an encryption algorithm, three bytes of Thrift
  and a trailer of five bytes is read without exception when the decryption properties do
  not ask for the integrity check.\<close>

theorem C4_unchecked_trailer_counterexample:
  "footer_magic_of short_trailer_file = PARQUET_MAGIC \<and>
   read_footer_metadata short_trailer_file (footer_read_size_of short_trailer_file)
     (footer_buffer_of short_trailer_file) = Inr (8, ''abcxxxxx'') \<and>
   DeserializeFileMetaData sample_externals None ''abcxxxxx'' =
     Inr (sample_file_metadata ''abc'' True, 3) \<and>
   isset_encryption_algorithm (sample_file_metadata ''abc'' True) \<and>
   (8 :: 32 word) - 3 = 5 \<and>
   \<not> isl (ParseMetaData sample_externals short_trailer_file
            (sample_reader_properties ''0123456789abcdef'' False None) (0::nat))"
proof -
  have "footer_magic_of short_trailer_file = PARQUET_MAGIC" by code_simp
  moreover have "read_footer_metadata short_trailer_file (footer_read_size_of short_trailer_file)
     (footer_buffer_of short_trailer_file) = Inr (8, ''abcxxxxx'')" by code_simp
  moreover have "DeserializeFileMetaData sample_externals None ''abcxxxxx'' =
     Inr (sample_file_metadata ''abc'' True, 3)"
    by (simp add: sample_externals_def)
  moreover have "isset_encryption_algorithm (sample_file_metadata ''abc'' True)"
    by (simp add: sample_file_metadata_def)
  moreover have "\<not> isl (ParseMetaData sample_externals short_trailer_file
            (sample_reader_properties ''0123456789abcdef'' False None) (0::nat))"
    by code_simp
  ultimately show ?thesis by simp
qed

subsection \<open>A key that the KMS denies\<close>

















subsection \<open>Key material: the JSON text is parsed back\<close>

lemma hex_value_hex_digit: "d < 16 \<Longrightarrow> hex_value (hex_digit d) = Some d"
proof -
  assume "d < 16"
  then have "d = 0 \<or> d = 1 \<or> d = 2 \<or> d = 3 \<or> d = 4 \<or> d = 5 \<or> d = 6 \<or> d = 7 \<or>
      d = 8 \<or> d = 9 \<or> d = 10 \<or> d = 11 \<or> d = 12 \<or> d = 13 \<or> d = 14 \<or> d = 15"
    by arith
  then show ?thesis
    by (auto simp: hex_value_def hex_digit_def)
qed

lemma of_char_eq_D: "of_char c = (of_char d :: nat) \<Longrightarrow> c = d"
  by (simp add: of_char_eq_iff)

lemma unicode_escape_control:
  assumes "n < 32"
  shows "unicode_escape (CHR ''0'' # CHR ''0'' # hex_digit (n div 16) # hex_digit (n mod 16) # tail) =
         Some ([char_of n], 4)"
proof -
  have a: "hex_value (hex_digit (n div 16)) = Some (n div 16)"
    using assms by (intro hex_value_hex_digit) simp
  have b: "hex_value (hex_digit (n mod 16)) = Some (n mod 16)"
    by (intro hex_value_hex_digit) simp
  have z: "hex_value (CHR ''0'') = Some 0" by (simp add: hex_value_def)
  have "parse_hex4 (CHR ''0'' # CHR ''0'' # hex_digit (n div 16) # hex_digit (n mod 16) # tail) =
        Some n"
    by (simp add: parse_hex4_def a b z)
  with assms show ?thesis
    by (simp add: unicode_escape_def utf8_encode_def)
qed

lemma parse_string_chars_escape_char:
  "parse_string_chars (escape_char c @ tail) =
     map_option (\<lambda>(s, r). (c # s, r)) (parse_string_chars tail)"
proof -
  let ?n = "of_char c :: nat"
  have c: "c = char_of ?n" by simp
  consider (quote) "c = CHR 0x22" | (backslash) "c = CHR 0x5C"
    | (short) "?n \<in> {8, 9, 10, 12, 13}"
    | (control) "?n < 32" "?n \<notin> {8, 9, 10, 12, 13}"
    | (plain) "c \<noteq> CHR 0x22" "c \<noteq> CHR 0x5C" "\<not> ?n < 32"
    by fastforce
  then show ?thesis
  proof cases
    case quote
    then show ?thesis by (simp add: escape_char_def unescape_def)
  next
    case backslash
    then show ?thesis by (simp add: escape_char_def unescape_def)
  next
    case short
    then have "c \<in> {CHR 0x08, CHR 0x09, CHR 0x0A, CHR 0x0C, CHR 0x0D}"
      using of_char_eq_D [of c "CHR 0x08"] of_char_eq_D [of c "CHR 0x09"]
        of_char_eq_D [of c "CHR 0x0A"] of_char_eq_D [of c "CHR 0x0C"]
        of_char_eq_D [of c "CHR 0x0D"]
      by auto
    then show ?thesis
      by (auto simp: escape_char_def unescape_def)
  next
    case control
    then have ne: "c \<noteq> CHR 0x22" "c \<noteq> CHR 0x5C" by auto
    from control ne have e: "escape_char c =
        [CHR 0x5C, CHR ''u'', CHR ''0'', CHR ''0'', hex_digit (?n div 16), hex_digit (?n mod 16)]"
      by (auto simp: escape_char_def Let_def)
    show ?thesis
      unfolding e using unicode_escape_control [OF control(1)]
      by simp
  next
    case plain
    then have "escape_char c = [c]" by (auto simp: escape_char_def Let_def)
    with plain show ?thesis by simp
  qed
qed

lemma parse_string_chars_escaped:
  "parse_string_chars (concat (map escape_char s) @ CHR 0x22 # rest) = Some (s, rest)"
  by (induction s) (simp_all add: parse_string_chars_escape_char)

lemma parse_string_chars_write_string:
  "parse_string_chars (tl (write_string s) @ rest) = Some (s, rest)"
  using parse_string_chars_escaped [of s rest] by (simp add: write_string_def)

lemma write_string_Cons: "write_string s = CHR 0x22 # tl (write_string s)"
  by (simp add: write_string_def)

lemma parse_value_write_value:
  assumes "\<not> is_other v"
  shows "parse_value other (write_value v @ rest) = Some (v, rest)"
proof (cases v)
  case (JString s)
  have "parse_value other (CHR 0x22 # tl (write_string s) @ rest) = Some (JString s, rest)"
    by (simp add: parse_value_def parse_string_chars_write_string)
  with JString show ?thesis
    using write_string_Cons [of s] by (metis append_Cons write_value.simps(1))
next
  case (JBool b)
  then show ?thesis by (simp add: parse_value_def)
next
  case (JOther t)
  with assms show ?thesis by simp
qed

lemma skip_ws_not_ws: "\<not> is_ws c \<Longrightarrow> skip_ws (c # cs) = c # cs"
  by (simp add: skip_ws_def)

lemma skip_ws_write_value:
  "\<not> is_other v \<Longrightarrow> skip_ws (write_value v @ rest) = write_value v @ rest"
  by (cases v) (auto simp: skip_ws_def is_ws_def write_string_def)

lemma skip_ws_write_string: "skip_ws (write_string s @ rest) = write_string s @ rest"
  by (simp add: skip_ws_def is_ws_def write_string_def)

lemma parse_members_member_last:
  assumes "\<not> is_other v"
  shows "parse_members other (write_string name @ CHR '':'' # write_value v @ CHR ''}'' # rest) =
     Some ([(name, v)], rest)"
proof -
  have "parse_members other
          (CHR 0x22 # tl (write_string name) @ CHR '':'' # write_value v @ CHR ''}'' # rest) =
     Some ([(name, v)], rest)"
    by (subst parse_members.simps)
       (simp add: parse_string_chars_write_string skip_ws_not_ws is_ws_def
          skip_ws_write_value [OF assms] parse_value_write_value [OF assms])
  then show ?thesis using write_string_Cons [of name] by (metis append_Cons)
qed

lemma parse_members_member_next:
  assumes "\<not> is_other v"
  shows "parse_members other (write_string name @ CHR '':'' # write_value v @ CHR '','' # others) =
     map_option (\<lambda>(ms, r). ((name, v) # ms, r)) (parse_members other (skip_ws others))"
proof -
  have "parse_members other
          (CHR 0x22 # tl (write_string name) @ CHR '':'' # write_value v @ CHR '','' # others) =
     map_option (\<lambda>(ms, r). ((name, v) # ms, r)) (parse_members other (skip_ws others))"
    by (subst parse_members.simps)
       (simp add: parse_string_chars_write_string skip_ws_not_ws is_ws_def
          skip_ws_write_value [OF assms] parse_value_write_value [OF assms])
  then show ?thesis using write_string_Cons [of name] by (metis append_Cons)
qed

lemma skip_ws_write_members:
  "skip_ws (write_members ms @ CHR ''}'' # rest) = write_members ms @ CHR ''}'' # rest"
  by (induction ms rule: write_members.induct)
     (simp_all add: skip_ws_not_ws is_ws_def skip_ws_write_string)

lemma parse_members_write_members:
  "ms \<noteq> [] \<Longrightarrow> list_all (\<lambda>m. \<not> is_other (snd m)) ms \<Longrightarrow>
   parse_members other (write_members ms @ CHR ''}'' # rest) = Some (ms, rest)"
proof (induction ms rule: write_members.induct)
  case 1
  then show ?case by simp
next
  case (2 name v)
  then have "\<not> is_other v" by simp
  from parse_members_member_last [OF this, of other name rest] show ?case by simp
next
  case (3 name v m ms)
  then have v: "\<not> is_other v" by simp
  have "parse_members other (write_members ((name, v) # m # ms) @ CHR ''}'' # rest) =
        map_option (\<lambda>(ms, r). ((name, v) # ms, r))
          (parse_members other (skip_ws (write_members (m # ms) @ CHR ''}'' # rest)))"
    using parse_members_member_next [OF v, of other name "write_members (m # ms) @ CHR ''}'' # rest"]
    by simp
  with 3 show ?case by (simp add: skip_ws_write_members)
qed

lemma json_parse_json_write:
  assumes "list_all (\<lambda>m. \<not> is_other (snd m)) doc"
  shows "json_parse other (json_write doc) = Some doc"
proof (cases doc)
  case Nil
  then show ?thesis
    by (simp add: json_parse_def json_write_def skip_ws_def is_ws_def)
next
  case (Cons m ms)
  obtain name v where m: "m = (name, v)" by (cases m)
  have ne: "doc \<noteq> []" using Cons by simp
  have start: "\<exists>t. write_members doc @ ''}'' = CHR 0x22 # t"
    unfolding Cons m by (cases ms) (auto simp: write_string_def)
  then obtain t where t: "write_members doc @ ''}'' = CHR 0x22 # t" by blast
  have p: "parse_members other (CHR 0x22 # t) = Some (doc, [])"
    using parse_members_write_members [OF ne assms, of other "[]"] t by simp
  show ?thesis
    unfolding json_parse_def json_write_def
    by (simp add: skip_ws_not_ws is_ws_def t p) (simp add: skip_ws_def)
qed

lemma escape_char_no_NUL: "CHR 0x00 \<notin> set (escape_char c)"
proof -
  have "hex_digit d \<noteq> CHR 0x00" if "d < 16" for d
  proof -
    from that have "d = 0 \<or> d = 1 \<or> d = 2 \<or> d = 3 \<or> d = 4 \<or> d = 5 \<or> d = 6 \<or>
        d = 7 \<or> d = 8 \<or> d = 9 \<or> d = 10 \<or> d = 11 \<or> d = 12 \<or> d = 13 \<or> d = 14 \<or> d = 15"
      by arith
    then show ?thesis by (auto simp: hex_digit_def)
  qed
  then have h: "hex_digit (n div 16) \<noteq> CHR 0x00" "hex_digit (n mod 16) \<noteq> CHR 0x00"
    if "n < 32" for n
    using that by simp_all
  show ?thesis
    using h [of "of_char c"]
    by (auto simp: escape_char_def Let_def)
qed

lemma write_string_no_NUL: "CHR 0x00 \<notin> set (write_string s)"
  using escape_char_no_NUL by (auto simp: write_string_def)

lemma write_value_no_NUL: "\<not> is_other v \<Longrightarrow> CHR 0x00 \<notin> set (write_value v)"
  by (cases v) (auto simp: write_string_no_NUL)

lemma write_members_no_NUL:
  "list_all (\<lambda>m. \<not> is_other (snd m)) ms \<Longrightarrow> CHR 0x00 \<notin> set (write_members ms)"
  by (induction ms rule: write_members.induct)
     (auto simp: write_string_no_NUL write_value_no_NUL)

lemma json_write_no_NUL:
  "list_all (\<lambda>m. \<not> is_other (snd m)) doc \<Longrightarrow> CHR 0x00 \<notin> set (json_write doc)"
  by (simp add: json_write_def write_members_no_NUL)

lemma c_str_no_NUL: "CHR 0x00 \<notin> set s \<Longrightarrow> c_str s = s"
  by (auto simp: c_str_def takeWhile_eq_all_conv)

lemma c_str_result_no_NUL: "CHR 0x00 \<notin> set (c_str s)"
  unfolding c_str_def by (induction s) auto

lemma c_str_c_str: "c_str (c_str s) = c_str s"
  by (rule c_str_no_NUL) (rule c_str_result_no_NUL)

lemma key_material_map_no_other:
  "list_all (\<lambda>m. \<not> is_other (snd m)) (key_material_map x internal)"
  by (simp add: key_material_map_def)

lemma json_parse_CreateSerialized:
  "json_parse other (c_str (CreateSerialized x internal)) = Some (key_material_map x internal)"
  by (simp add: CreateSerialized_def c_str_c_str c_str_no_NUL json_write_no_NUL
      json_parse_json_write key_material_map_no_other)

lemmas field_defs =
  KEY_MATERIAL_TYPE_FIELD_def KEY_MATERIAL_TYPE1_def KEY_MATERIAL_INTERNAL_STORAGE_FIELD_def
  IS_FOOTER_KEY_FIELD_def KMS_INSTANCE_ID_FIELD_def KMS_INSTANCE_URL_FIELD_def
  MASTER_KEY_ID_FIELD_def WRAPPED_DEK_FIELD_def DOUBLE_WRAPPING_FIELD_def KEK_ID_FIELD_def
  WRAPPED_KEK_FIELD_def

lemma Parse_key_material_map:
  "(case member_GetString (key_material_map x internal) KEY_MATERIAL_TYPE_FIELD of
      Inl e \<Rightarrow> Inl e
    | Inr key_material_type \<Rightarrow>
        if KEY_MATERIAL_TYPE1 \<noteq> key_material_type
        then Inl (ParquetException
                    (''Wrong key material type: '' @ key_material_type @ '' vs '' @
                     KEY_MATERIAL_TYPE1))
        else Parse_document (key_material_map x internal)) = Inr (normalized x)"
  by (cases "is_footer_key x"; cases "is_double_wrapped x"; cases internal)
     (simp_all add: key_material_map_def member_GetString_def member_GetBool_def
        Parse_document_def normalized_def field_defs c_str_c_str c_str_def [of "''PKMT1''"])

text \<open>What \<open>Parse\<close> returns on the text of \<open>CreateSerialized\<close>, for all arguments: the
  fields that were written, each cut at its first NUL, and empty strings for the others.\<close>

lemma Parse_CreateSerialized: "Parse other (CreateSerialized x internal) = Inr (normalized x)"
  unfolding Parse_def json_parse_CreateSerialized option.case
  by (rule Parse_key_material_map)

lemma normalized_well_formed: "well_formed x \<Longrightarrow> normalized x = x"
  by (cases x) (auto simp: well_formed_def normalized_def c_str_no_NUL)

lemma well_formed_normalized: "well_formed (normalized x)"
  by (simp add: well_formed_def normalized_def c_str_result_no_NUL)

text \<open>The round trip gives back its argument for the well-formed values and for no other.\<close>

lemma Parse_CreateSerialized_iff:
  "Parse other (CreateSerialized x internal) = Inr x \<longleftrightarrow> well_formed x"
  using normalized_well_formed [of x] well_formed_normalized [of x]
  by (auto simp: Parse_CreateSerialized)

text \<open>Every value that \<open>Parse\<close> returns is well-formed.\<close>

lemma member_GetString_no_NUL: "member_GetString doc name = Inr s \<Longrightarrow> CHR 0x00 \<notin> set s"
  by (auto simp: member_GetString_def c_str_result_no_NUL
      split: option.splits json_value.splits)

lemma sum_case_Inr:
  assumes "(case m of Inl e \<Rightarrow> Inl e | Inr v \<Rightarrow> f v) = Inr y"
  obtains v where "m = Inr v" "f v = Inr y"
  using assms by (cases m) auto

lemma Parse_document_well_formed: "Parse_document doc = Inr x \<Longrightarrow> well_formed x"
  unfolding Parse_document_def
  by (elim sum_case_Inr)
     (auto elim!: sum_case_Inr simp: well_formed_def split: prod.splits if_splits
        dest: member_GetString_no_NUL)

lemma Parse_well_formed: "Parse other s = Inr x \<Longrightarrow> well_formed x"
  by (auto simp: Parse_def dest: Parse_document_well_formed
      split: option.splits sum.splits if_splits)

text \<open>
  C1. The claim: for every well-formed \<open>KeyMaterial\<close> value \<open>x\<close> (with the footer-only
  fields set when \<open>is_footer_key\<close> is true and the KEK fields set when
  \<open>is_double_wrapped\<close> is true), parsing the string produced by
  \<open>KeyMaterial::CreateSerialized\<close> for \<open>x\<close> yields a \<open>KeyMaterial\<close> equal to \<open>x\<close> in
  all eight fields.

  As worded the condition says nothing of a value whose flag is false: \<open>CreateSerialized\<close>
  writes \<open>kmsInstanceID\<close> and \<open>kmsInstanceURL\<close> only for a footer key and
  \<open>keyEncryptionKeyID\<close> and \<open>wrappedKEK\<close> only under double wrapping, and \<open>Parse\<close> leaves
  the fields it does not read empty, so a column key that carries a KMS instance comes
  back without it; and every string goes in through \<open>c_str()\<close>, so a string with a NUL
  byte comes back cut (\<open>C1_unwritten_fields_counterexample\<close>). The theorem is the claim
  with the condition made exact, \<open>well_formed\<close>: the footer-only fields are empty unless
  \<open>is_footer_key\<close>, the KEK fields are empty unless \<open>is_double_wrapped\<close>, and no string
  holds a NUL byte. Then, with or without the \<open>internalStorage\<close> member, \<open>Parse\<close> of the
  serialized text returns \<open>x\<close>, for strings of any bytes (quotes, backslashes and
  control characters are escaped and read back) and whatever the reader does with
  numbers, \<open>null\<close>, arrays and objects, of which the text has none.
\<close>

theorem C1_key_material_round_trip:
  "well_formed x \<Longrightarrow> Parse other (CreateSerialized x is_internal_storage) = Inr x"
  by (simp add: Parse_CreateSerialized normalized_well_formed)

theorem C1_key_material_round_trip_witness:
  "well_formed
     \<lparr>is_footer_key = True, kms_instance_id = ''kms-1'',
      kms_instance_url = ''https://kms.example/v1?a=\"b\"'', master_key_id = ''kf'',
      is_double_wrapped = True, kek_id = ''a2VrMQ=='',
      encoded_wrapped_kek = ''d3JhcHBlZCBLRUs='', encoded_wrapped_dek = ''d3JhcHBlZCBERUs=''\<rparr> \<and>
   Parse no_other_value (CreateSerialized
     \<lparr>is_footer_key = True, kms_instance_id = ''kms-1'',
      kms_instance_url = ''https://kms.example/v1?a=\"b\"'', master_key_id = ''kf'',
      is_double_wrapped = True, kek_id = ''a2VrMQ=='',
      encoded_wrapped_kek = ''d3JhcHBlZCBLRUs='', encoded_wrapped_dek = ''d3JhcHBlZCBERUs=''\<rparr>
     True) =
   Inr \<lparr>is_footer_key = True, kms_instance_id = ''kms-1'',
      kms_instance_url = ''https://kms.example/v1?a=\"b\"'', master_key_id = ''kf'',
      is_double_wrapped = True, kek_id = ''a2VrMQ=='',
      encoded_wrapped_kek = ''d3JhcHBlZCBLRUs='', encoded_wrapped_dek = ''d3JhcHBlZCBERUs=''\<rparr>"
  using C1_key_material_round_trip
    [of "\<lparr>is_footer_key = True, kms_instance_id = ''kms-1'',
      kms_instance_url = ''https://kms.example/v1?a=\"b\"'', master_key_id = ''kf'',
      is_double_wrapped = True, kek_id = ''a2VrMQ=='',
      encoded_wrapped_kek = ''d3JhcHBlZCBLRUs='', encoded_wrapped_dek = ''d3JhcHBlZCBERUs=''\<rparr>"
      no_other_value True]
  by (simp add: well_formed_def)

text \<open>The claim without the exact condition fails: a column key with a KMS instance
  loses it, and a master key identifier with a NUL byte is cut at the NUL.\<close>

theorem C1_unwritten_fields_counterexample:
  "Parse no_other_value (CreateSerialized
     \<lparr>is_footer_key = False, kms_instance_id = ''kms-1'',
      kms_instance_url = ''https://kms.example/v1'', master_key_id = ''kc'',
      is_double_wrapped = False, kek_id = [], encoded_wrapped_kek = [],
      encoded_wrapped_dek = ''d3JhcHBlZCBERUs=''\<rparr> True) =
   Inr \<lparr>is_footer_key = False, kms_instance_id = [], kms_instance_url = [],
      master_key_id = ''kc'', is_double_wrapped = False, kek_id = [],
      encoded_wrapped_kek = [], encoded_wrapped_dek = ''d3JhcHBlZCBERUs=''\<rparr> \<and>
   Parse no_other_value (CreateSerialized
     \<lparr>is_footer_key = True, kms_instance_id = ''kms-1'',
      kms_instance_url = ''https://kms.example/v1'', master_key_id = [CHR ''k'', CHR 0x00, CHR ''f''],
      is_double_wrapped = False, kek_id = [], encoded_wrapped_kek = [],
      encoded_wrapped_dek = ''d3JhcHBlZCBERUs=''\<rparr> True) =
   Inr \<lparr>is_footer_key = True, kms_instance_id = ''kms-1'',
      kms_instance_url = ''https://kms.example/v1'', master_key_id = ''k'',
      is_double_wrapped = False, kek_id = [], encoded_wrapped_kek = [],
      encoded_wrapped_dek = ''d3JhcHBlZCBERUs=''\<rparr>"
  by code_simp


end
